theory Spec2Isabelle
  imports Main "HOL-Library.AList"
begin

unbundle bit_operations_syntax

section \<open>Tool parameter strings (tools.py)\<close>

text \<open>
  A \<^verbatim>\<open>dict[str, str]\<close> keeps its keys in insertion order, and
  \<^verbatim>\<open>serialize_tool_params\<close> reads them in that order, so the dictionary is an
  association list with distinct keys. Assigning \<^verbatim>\<open>params[key] = value\<close> replaces the
  value of a key in place and appends a new key at the end, which is \<open>AList.update\<close>.
\<close>

type_synonym params = "(string \<times> string) list"

text \<open>\<^verbatim>\<open>sep.join(xs)\<close>\<close>

fun join :: "string \<Rightarrow> string list \<Rightarrow> string" where
  "join sep [] = []"
| "join sep [x] = x"
| "join sep (x # y # ys) = x @ sep @ join sep (y # ys)"

text \<open>\<^verbatim>\<open>s.split(c)\<close> for a separator of one character: the empty string gives one empty
  piece, and every occurrence of the separator starts a new piece.\<close>

fun split_on :: "char \<Rightarrow> string \<Rightarrow> string list" where
  "split_on c [] = [[]]"
| "split_on c (x # xs) =
     (if x = c then [] # split_on c xs
      else (case split_on c xs of [] \<Rightarrow> [[x]] | w # ws \<Rightarrow> (x # w) # ws))"

definition serialize_tool_params :: "params \<Rightarrow> string" where
  "serialize_tool_params params =
     join '';'' (map (\<lambda>(key, value). key @ ''='' @ value) params)"

text \<open>The loop of \<^verbatim>\<open>parse_tool_params\<close> over the pieces; \<^verbatim>\<open>item.split("=", 1)\<close> cuts
  at the first \<^verbatim>\<open>=\<close>.\<close>

fun parse_items :: "string list \<Rightarrow> params \<Rightarrow> params" where
  "parse_items [] params = params"
| "parse_items (item # items) params =
     (if item = [] then parse_items items params
      else if CHR ''='' \<notin> set item then parse_items items (AList.update item [] params)
      else parse_items items
             (AList.update (takeWhile (\<lambda>c. c \<noteq> CHR ''='') item)
                           (tl (dropWhile (\<lambda>c. c \<noteq> CHR ''='') item)) params))"

definition parse_tool_params :: "string \<Rightarrow> params" where
  "parse_tool_params raw =
     (if raw = [] then [] else parse_items (split_on CHR '';'' raw) [])"

section \<open>Dates and times (Python's datetime and calendar)\<close>

text \<open>
  A naive \<^verbatim>\<open>datetime\<close> object, with the attributes the code reads. Python keeps
  \<^verbatim>\<open>1 <= year <= 9999\<close> and every other field in its calendar range; \<open>valid_datetime\<close>
  says so, and it holds of \<^verbatim>\<open>datetime.now()\<close>.
\<close>

record datetime =
  year :: int
  month :: int
  day :: int
  hour :: int
  minute :: int
  second :: int
  microsecond :: int

definition is_leap :: "int \<Rightarrow> bool" where
  "is_leap y = (y mod 4 = 0 \<and> (y mod 100 \<noteq> 0 \<or> y mod 400 = 0))"

text \<open>\<^verbatim>\<open>calendar.monthrange(year, month)[1]\<close>, the number of days of the month.\<close>

definition days_in_month :: "int \<Rightarrow> int \<Rightarrow> int" where
  "days_in_month y m =
     (if m = 2 then (if is_leap y then 29 else 28)
      else if m = 4 \<or> m = 6 \<or> m = 9 \<or> m = 11 then 30 else 31)"

definition valid_datetime :: "datetime \<Rightarrow> bool" where
  "valid_datetime dt =
     (1 \<le> year dt \<and> year dt \<le> 9999 \<and> 1 \<le> month dt \<and> month dt \<le> 12
      \<and> 1 \<le> day dt \<and> day dt \<le> days_in_month (year dt) (month dt)
      \<and> 0 \<le> hour dt \<and> hour dt < 24 \<and> 0 \<le> minute dt \<and> minute dt < 60
      \<and> 0 \<le> second dt \<and> second dt < 60
      \<and> 0 \<le> microsecond dt \<and> microsecond dt < 1000000)"

text \<open>\<^verbatim>\<open>date.toordinal()\<close>: day 1 is 0001-01-01.\<close>

definition days_before_year :: "int \<Rightarrow> int" where
  "days_before_year y = (y - 1) * 365 + (y - 1) div 4 - (y - 1) div 100 + (y - 1) div 400"

definition days_before_month :: "int \<Rightarrow> int \<Rightarrow> int" where
  "days_before_month y m =
     [0, 31, 59, 90, 120, 151, 181, 212, 243, 273, 304, 334] ! nat (m - 1)
       + (if m > 2 \<and> is_leap y then 1 else 0)"

definition toordinal :: "datetime \<Rightarrow> int" where
  "toordinal dt = days_before_year (year dt) + days_before_month (year dt) (month dt) + day dt"

text \<open>\<^verbatim>\<open>weekday()\<close>: Monday is 0, Sunday is 6.\<close>

definition weekday :: "datetime \<Rightarrow> int" where
  "weekday dt = (toordinal dt + 6) mod 7"

text \<open>\<^verbatim>\<open>weekday_mask\<close> of scheduler.py: \<^verbatim>\<open>1 << dt.weekday()\<close>.\<close>

definition weekday_mask :: "datetime \<Rightarrow> int" where
  "weekday_mask dt = push_bit (nat (weekday dt)) 1"

text \<open>Comparison of two \<^verbatim>\<open>date\<close> objects and of two \<^verbatim>\<open>datetime\<close> objects: field by
  field, the year first.\<close>

definition date_less :: "datetime \<Rightarrow> datetime \<Rightarrow> bool" where
  "date_less a b =
     (year a < year b \<or> (year a = year b \<and>
       (month a < month b \<or> (month a = month b \<and> day a < day b))))"

definition same_date :: "datetime \<Rightarrow> datetime \<Rightarrow> bool" where
  "same_date a b = (year a = year b \<and> month a = month b \<and> day a = day b)"

definition time_less :: "datetime \<Rightarrow> datetime \<Rightarrow> bool" where
  "time_less a b =
     (hour a < hour b \<or> (hour a = hour b \<and>
       (minute a < minute b \<or> (minute a = minute b \<and>
         (second a < second b \<or> (second a = second b \<and> microsecond a < microsecond b))))))"

definition same_time :: "datetime \<Rightarrow> datetime \<Rightarrow> bool" where
  "same_time a b =
     (hour a = hour b \<and> minute a = minute b \<and> second a = second b
      \<and> microsecond a = microsecond b)"

definition datetime_less :: "datetime \<Rightarrow> datetime \<Rightarrow> bool" where
  "datetime_less a b = (date_less a b \<or> (same_date a b \<and> time_less a b))"

definition datetime_le :: "datetime \<Rightarrow> datetime \<Rightarrow> bool" where
  "datetime_le a b = (datetime_less a b \<or> (same_date a b \<and> same_time a b))"

text \<open>\<^verbatim>\<open>dt.replace(second=0, microsecond=0)\<close>\<close>

definition truncate_to_minute :: "datetime \<Rightarrow> datetime" where
  "truncate_to_minute dt = dt\<lparr>second := 0, microsecond := 0\<rparr>"

subsection \<open>Decimal text\<close>

text \<open>\<^verbatim>\<open>str(n)\<close> of a natural number, and the zero padding of the formats
  \<^verbatim>\<open>%02d\<close> and \<^verbatim>\<open>%04d\<close> that \<^verbatim>\<open>isoformat\<close> and the f-string
  \<^verbatim>\<open>f"{now.day:02d}"\<close> use.\<close>

definition digit_char :: "nat \<Rightarrow> char" where
  "digit_char n = ''0123456789'' ! n"

fun str_nat :: "nat \<Rightarrow> string" where
  "str_nat n = (if n < 10 then [digit_char n] else str_nat (n div 10) @ [digit_char (n mod 10)])"

declare str_nat.simps [simp del]

definition zero_pad :: "nat \<Rightarrow> int \<Rightarrow> string" where
  "zero_pad w n =
     (let s = str_nat (nat n) in replicate (w - length s) CHR ''0'' @ s)"

text \<open>\<^verbatim>\<open>date.isoformat()\<close>, \<^verbatim>\<open>isoformat(timespec="minutes")\<close> and
  \<^verbatim>\<open>isoformat(timespec="seconds")\<close>.\<close>

definition date_isoformat :: "datetime \<Rightarrow> string" where
  "date_isoformat dt =
     zero_pad 4 (year dt) @ ''-'' @ zero_pad 2 (month dt) @ ''-'' @ zero_pad 2 (day dt)"

definition isoformat_minutes :: "datetime \<Rightarrow> string" where
  "isoformat_minutes dt =
     date_isoformat dt @ ''T'' @ zero_pad 2 (hour dt) @ '':'' @ zero_pad 2 (minute dt)"

definition isoformat_seconds :: "datetime \<Rightarrow> string" where
  "isoformat_seconds dt = isoformat_minutes dt @ '':'' @ zero_pad 2 (second dt)"

text \<open>
  \<^verbatim>\<open>int(s)\<close> on a string, in base 10. A character stands for a code point below 256.
  CPython strips the C white space (tab to carriage return, and the space) from an ASCII
  string; in a string with a character above 127 it first turns every Unicode white space
  character (among these code points also \<^verbatim>\<open>0x1C\<close> to \<^verbatim>\<open>0x1F\<close>, \<^verbatim>\<open>0x85\<close> and
  \<^verbatim>\<open>0xA0\<close>) into a space. One sign is allowed, the digits may be grouped by single
  underscores, and more than 4300 digits are refused. \<open>None\<close> is the \<^verbatim>\<open>ValueError\<close>.
\<close>

definition is_ascii :: "string \<Rightarrow> bool" where
  "is_ascii s = list_all (\<lambda>c. (of_char c :: nat) < 128) s"

definition is_c_space :: "char \<Rightarrow> bool" where
  "is_c_space c = (c \<in> set [CHR '' '', CHR 0x09, CHR 0x0A, CHR 0x0B, CHR 0x0C, CHR 0x0D])"

definition is_unicode_space :: "char \<Rightarrow> bool" where
  "is_unicode_space c =
     (is_c_space c \<or> c \<in> set [CHR 0x1C, CHR 0x1D, CHR 0x1E, CHR 0x1F, CHR 0x85, CHR 0xA0])"

definition is_space :: "string \<Rightarrow> char \<Rightarrow> bool" where
  "is_space s c = (if is_ascii s then is_c_space c else is_unicode_space c)"

definition is_digit :: "char \<Rightarrow> bool" where
  "is_digit c = (c \<in> set ''0123456789'')"

definition strip :: "string \<Rightarrow> string" where
  "strip s = rev (dropWhile (is_space s) (rev (dropWhile (is_space s) s)))"

fun underscores_ok :: "string \<Rightarrow> bool" where
  "underscores_ok [] = False"
| "underscores_ok [c] = is_digit c"
| "underscores_ok (c # d # cs) =
     (if is_digit c then underscores_ok (d # cs)
      else c = CHR ''_'' \<and> is_digit d \<and> underscores_ok (d # cs))"

definition digits_value :: "string \<Rightarrow> int" where
  "digits_value s = foldl (\<lambda>a c. 10 * a + (int (of_char c) - 48)) 0 s"

definition py_int :: "string \<Rightarrow> int option" where
  "py_int s =
     (let t = strip s;
          neg = (t \<noteq> [] \<and> hd t = CHR ''-'');
          body = (if t \<noteq> [] \<and> (hd t = CHR ''-'' \<or> hd t = CHR ''+'') then tl t else t)
      in if body \<noteq> [] \<and> is_digit (hd body) \<and> underscores_ok body
            \<and> length (filter is_digit body) \<le> 4300
         then Some ((if neg then - 1 else 1) * digits_value (filter is_digit body))
         else None)"

section \<open>The data model (models.py, db.py)\<close>

text \<open>
  A row of the \<^verbatim>\<open>jobs\<close> table as \<^verbatim>\<open>Job.from_row\<close> reads it: text columns with
  \<^verbatim>\<open>NULL\<close> read as the empty string, the 0/1 columns as booleans, and
  \<^verbatim>\<open>last_run_at\<close> as the \<^verbatim>\<open>datetime\<close> its text stands for. The primary key
  \<^verbatim>\<open>id\<close> is the field \<open>jid\<close>.
\<close>

record job =
  jid :: int
  name :: string
  description :: string
  send_to :: string
  program_path :: string
  parameters :: string
  batch_path :: string
  api_enabled :: bool
  api_method :: string
  api_url :: string
  api_headers :: string
  api_body :: string
  api_auth_type :: string
  api_auth_value :: string
  api_timeout :: int
  api_retries :: int
  active :: bool
  once_per_day :: bool
  autostart :: bool
  run_as_enabled :: bool
  run_as_admin :: bool
  run_as_user :: string
  run_as_domain :: string
  run_as_password :: string
  last_run_at :: "datetime option"

text \<open>A row of \<^verbatim>\<open>schedules\<close> (class \<^verbatim>\<open>ScheduleSlot\<close>); its \<^verbatim>\<open>id\<close> is \<open>sid\<close>, its
  \<^verbatim>\<open>active\<close> column is \<open>slot_active\<close>, and a \<^verbatim>\<open>NULL\<close> date is \<open>None\<close>.\<close>

record slot =
  sid :: int
  job_id :: int
  schedule_type :: string
  days_mask :: int
  date :: "string option"
  minute_of_day :: int
  slot_active :: bool

text \<open>
  A row of \<^verbatim>\<open>run_logs\<close>, with the columns \<^verbatim>\<open>persist_run\<close> writes. The three time
  columns hold text. The row id, which SQLite assigns and neither the runner nor the
  scheduler reads, is left out.
\<close>

record run_log =
  log_job_id :: int
  log_scheduled_time :: string
  log_start_time :: string
  log_end_time :: string
  log_status :: string
  log_exit_code :: "int option"
  log_output :: string
  log_error :: string

record db =
  jobs :: "job list"
  schedules :: "slot list"
  run_logs :: "run_log list"

text \<open>Class \<^verbatim>\<open>RunResult\<close> of runner.py.\<close>

record run_result =
  status :: string
  exit_code :: "int option"
  output' :: string
  error :: string
  start_time :: datetime
  end_time :: datetime

text \<open>The exceptions that leave the modelled functions.\<close>

datatype exn = ValueError | OverflowError | ImportError | FileNotFoundError | IntegrityError
  | OSError | KeyError | AttributeError | IndexError

section \<open>Recording a run (runner.py, \<^verbatim>\<open>JobRunner.persist_run\<close>)\<close>

text \<open>
  \<^verbatim>\<open>INSERT OR REPLACE INTO run_logs\<close> under the unique index on
  \<^verbatim>\<open>(job_id, scheduled_time)\<close>: every row with the new row's key is deleted and the new
  row is inserted. An integer parameter outside the signed 64 bits of an SQLite
  \<^verbatim>\<open>INTEGER\<close> makes the binding raise \<^verbatim>\<open>OverflowError\<close> before the statement runs; the
  integers bound here are the job id and the exit code. The connection has \<^verbatim>\<open>PRAGMA foreign_keys = ON\<close> and
  \<^verbatim>\<open>job_id\<close> references \<^verbatim>\<open>jobs(id)\<close>, so the insert raises when there is no such job;
  nothing is committed then. The \<^verbatim>\<open>UPDATE\<close> sets \<^verbatim>\<open>last_run_at\<close> to the text of the
  end time, which \<^verbatim>\<open>Job.from_row\<close> reads back as that time without its microseconds.
\<close>

definition run_row :: "int \<Rightarrow> datetime \<Rightarrow> run_result \<Rightarrow> run_log" where
  "run_row job_id' scheduled_time' result =
     \<lparr>log_job_id = job_id',
      log_scheduled_time = isoformat_minutes scheduled_time',
      log_start_time = isoformat_seconds (start_time result),
      log_end_time = isoformat_seconds (end_time result),
      log_status = status result,
      log_exit_code = exit_code result,
      log_output = output' result,
      log_error = error result\<rparr>"

definition same_key :: "run_log \<Rightarrow> run_log \<Rightarrow> bool" where
  "same_key a b =
     (log_job_id a = log_job_id b \<and> log_scheduled_time a = log_scheduled_time b)"

definition insert_or_replace :: "run_log \<Rightarrow> run_log list \<Rightarrow> run_log list" where
  "insert_or_replace row rows = filter (\<lambda>r. \<not> same_key r row) rows @ [row]"

definition set_last_run :: "int \<Rightarrow> datetime \<Rightarrow> job \<Rightarrow> job" where
  "set_last_run job_id' t j =
     (if jid j = job_id' then j\<lparr>last_run_at := Some (t\<lparr>microsecond := 0\<rparr>)\<rparr> else j)"

definition in_int64 :: "int \<Rightarrow> bool" where
  "in_int64 n = (- (2 ^ 63) \<le> n \<and> n < 2 ^ 63)"

definition exit_code_fits :: "run_result \<Rightarrow> bool" where
  "exit_code_fits result = (case exit_code result of None \<Rightarrow> True | Some c \<Rightarrow> in_int64 c)"

definition persist_run :: "db \<Rightarrow> int \<Rightarrow> datetime \<Rightarrow> run_result \<Rightarrow> exn + db" where
  "persist_run d job_id' scheduled_time' result =
     (if \<not> in_int64 job_id' \<or> \<not> exit_code_fits result then Inl OverflowError
      else if job_id' \<notin> set (map jid (jobs d)) then Inl IntegrityError
      else Inr (d\<lparr>run_logs := insert_or_replace (run_row job_id' scheduled_time' result) (run_logs d),
                  jobs := map (set_last_run job_id' (end_time result)) (jobs d)\<rparr>))"

text \<open>The run records kept for a job and a scheduled minute.\<close>

definition run_logs_for :: "db \<Rightarrow> int \<Rightarrow> datetime \<Rightarrow> run_log list" where
  "run_logs_for d job_id' scheduled_time' =
     filter (\<lambda>r. log_job_id r = job_id' \<and> log_scheduled_time r = isoformat_minutes scheduled_time')
       (run_logs d)"

section \<open>Due jobs (scheduler.py, \<^verbatim>\<open>SchedulerEngine._get_due_jobs\<close>)\<close>

record due_job =
  job :: job
  schedule_id :: int
  scheduled_time :: datetime

text \<open>\<^verbatim>\<open>_has_run_log\<close>\<close>

definition has_run_log :: "db \<Rightarrow> int \<Rightarrow> datetime \<Rightarrow> bool" where
  "has_run_log d job_id' scheduled_time' =
     (filter (\<lambda>r. log_job_id r = job_id' \<and> log_scheduled_time r = isoformat_minutes scheduled_time')
        (run_logs d) \<noteq> [])"

text \<open>
  The \<^verbatim>\<open>WHERE\<close> clause of the query, on one row of the join of \<^verbatim>\<open>schedules\<close> with
  \<^verbatim>\<open>jobs\<close>. A comparison with a \<^verbatim>\<open>NULL\<close> date is not true.
\<close>

definition sql_where :: "int \<Rightarrow> int \<Rightarrow> string \<Rightarrow> string \<Rightarrow> job \<Rightarrow> slot \<Rightarrow> bool" where
  "sql_where minute_of_day' day_mask today day_str j s =
     (active j \<and> slot_active s \<and> minute_of_day s = minute_of_day'
      \<and> ((schedule_type s = ''recurring'' \<and> (days_mask s AND day_mask) \<noteq> 0)
         \<or> (schedule_type s = ''date'' \<and> date s = Some today)
         \<or> (schedule_type s = ''monthly'' \<and> date s = Some day_str)))"

definition due_rows :: "db \<Rightarrow> int \<Rightarrow> int \<Rightarrow> string \<Rightarrow> string \<Rightarrow> (job \<times> slot) list" where
  "due_rows d minute_of_day' day_mask today day_str =
     concat (map (\<lambda>s. map (\<lambda>j. (j, s))
                    (filter (\<lambda>j. job_id s = jid j
                                \<and> sql_where minute_of_day' day_mask today day_str j s) (jobs d)))
               (schedules d))"

text \<open>
  The body of the loop over the rows: \<open>True\<close> when the row reaches
  \<^verbatim>\<open>due_jobs.append\<close>, \<open>False\<close> when one of the \<^verbatim>\<open>continue\<close> statements is taken.
\<close>

definition row_is_due :: "db \<Rightarrow> datetime \<Rightarrow> string \<Rightarrow> int \<Rightarrow> datetime \<Rightarrow> job \<times> slot \<Rightarrow> bool" where
  "row_is_due d now today last_day scheduled_time' row =
     (let j = fst row; s = snd row in
      if once_per_day j
         \<and> (case last_run_at j of None \<Rightarrow> False
                                  | Some last_run \<Rightarrow> date_isoformat last_run = today) then False
      else if has_run_log d (jid j) scheduled_time' then False
      else if schedule_type s = ''monthly'' then
        (case py_int (case date s of None \<Rightarrow> ''0'' | Some t \<Rightarrow> if t = [] then ''0'' else t) of
           None \<Rightarrow> False
         | Some scheduled_day \<Rightarrow> \<not> (scheduled_day > last_day \<and> day now \<noteq> last_day))
      else True)"

definition get_due_jobs :: "db \<Rightarrow> datetime \<Rightarrow> due_job list" where
  "get_due_jobs d now =
     (let minute_of_day' = hour now * 60 + minute now;
          day_mask = weekday_mask now;
          today = date_isoformat now;
          day_str = zero_pad 2 (day now);
          last_day = days_in_month (year now) (month now);
          scheduled_time' = truncate_to_minute now
      in map (\<lambda>row. \<lparr>job = fst row, schedule_id = sid (snd row), scheduled_time = scheduled_time'\<rparr>)
           (filter (row_is_due d now today last_day scheduled_time')
              (due_rows d minute_of_day' day_mask today day_str)))"

section \<open>The world outside the program\<close>

text \<open>
  What the runner asks of the operating system, the network and the Python library is a
  record of functions, so that every definition below computes once a world is given.
  A call that can raise returns a sum or an option, the exception on the left.
\<close>

type_synonym headers = "(string \<times> string) list"

text \<open>The arguments \<^verbatim>\<open>urllib.request.Request\<close> is built from.\<close>

record http_request =
  req_url :: string
  req_data :: "string option"
  req_headers :: headers
  req_method :: string

text \<open>
  One call of \<^verbatim>\<open>urlopen\<close> followed by reading the body: a response with its
  \<^verbatim>\<open>status\<close> (\<open>None\<close> for a scheme without one) and decoded body; an
  \<^verbatim>\<open>HTTPError\<close> with its code, its body (\<open>None\<close> when reading it raises) and its text;
  or any other exception, with its text.
\<close>

datatype urlopen_outcome =
    Response "int option" string
  | HTTPError int "string option" string
  | Failure string

datatype proc_outcome =
    Completed int string string
  | TimeoutExpired "string option" "string option"
  | RunError string

record tool_result =
  success :: bool
  message :: string

text \<open>The calls of \<^verbatim>\<open>_execute_tool\<close> on the \<^verbatim>\<open>ToolExecutor\<close>.\<close>

datatype tool_action =
    CopyPath string string
  | MovePath string string
  | DeletePath string
  | ZipPath string string
  | DownloadFile string string
  | SendEmail string int string string string string "string option" "string option" bool
  | SetWallpaper string
  | Reboot
  | Shutdown
  | ConnectVpn "string list"

record world =
  now_start :: datetime
  now_end :: datetime
  str_upper :: "string \<Rightarrow> string"
  str_lower :: "string \<Rightarrow> string"
  b64encode :: "string \<Rightarrow> string"
  request_accepts_url :: "string \<Rightarrow> bool"
  urlopen :: "http_request \<Rightarrow> int \<Rightarrow> nat \<Rightarrow> urlopen_outcome"
  load_module :: "exn option"
  path_exists :: "string \<Rightarrow> bool option"
  path_str :: "string \<Rightarrow> string"
  shlex_split :: "string \<Rightarrow> string list option"
  default_timeout :: int
  subprocess_run :: "string list \<Rightarrow> int \<Rightarrow> proc_outcome"
  shell_execute_ex :: "string \<Rightarrow> string \<Rightarrow> string + int"
  platform_system :: string
  make_temp_file :: "string + string"
  create_process_with_logon :: "string \<Rightarrow> string \<Rightarrow> string \<Rightarrow> string \<Rightarrow> string + int"
  read_output :: "string \<Rightarrow> string + string"
  run_tool_action :: "tool_action \<Rightarrow> tool_result"
  repr :: "string \<Rightarrow> string"
  int_error_text :: "string \<Rightarrow> string"

text \<open>What a run does to the world, in order.\<close>

datatype event =
    LoadModule
  | Urlopen nat
  | Sleep
  | ToolCall tool_action
  | SubprocessRun "string list"
  | ShellExecuteAdmin string string
  | CreateProcessWithLogon string string string string

section \<open>The HTTP client (Schedule API/request.py)\<close>

text \<open>The dictionary \<^verbatim>\<open>perform_request\<close> returns; the key \<^verbatim>\<open>error\<close> is absent from the
  dictionary of a response.\<close>

record http_result =
  http_status :: "int option"
  http_response :: string
  http_error :: "string option"

text \<open>\<^verbatim>\<open>headers.setdefault(key, value)\<close>\<close>

definition setdefault :: "string \<Rightarrow> string \<Rightarrow> headers \<Rightarrow> headers" where
  "setdefault k v h = (if k \<in> set (map fst h) then h else h @ [(k, v)])"

definition build_request ::
  "world \<Rightarrow> string \<Rightarrow> string \<Rightarrow> headers \<Rightarrow> string \<Rightarrow> string \<Rightarrow> string \<Rightarrow> http_request" where
  "build_request w method url headers0 body auth_type auth_value =
     (let with_body = (body \<noteq> [] \<and> str_upper w method \<in> set [''POST'', ''PUT'', ''PATCH'', ''DELETE'']);
          data = (if with_body then Some body else None);
          h1 = (if with_body then setdefault ''Content-Type'' ''application/json'' headers0
                else headers0);
          h2 = (if auth_type = ''Bearer'' \<and> auth_value \<noteq> []
                then AList.update ''Authorization'' (''Bearer '' @ auth_value) h1 else h1);
          h3 = (if auth_type = ''Basic'' \<and> auth_value \<noteq> []
                then AList.update ''Authorization'' (''Basic '' @ b64encode w auth_value) h2 else h2)
      in \<lparr>req_url = url, req_data = data, req_headers = h3, req_method = str_upper w method\<rparr>)"

text \<open>
  The loop \<^verbatim>\<open>for attempt in range(attempts)\<close>. A response and an \<^verbatim>\<open>HTTPError\<close> return
  at once; any other exception sleeps and goes on while attempts are left, and returns
  status 0 on the last one. An empty range falls out of the loop, and the function returns
  \<^verbatim>\<open>None\<close>.
\<close>

fun request_loop ::
  "(nat \<Rightarrow> urlopen_outcome) \<Rightarrow> nat \<Rightarrow> nat list \<Rightarrow> event list \<times> (exn + http_result option)" where
  "request_loop net attempts [] = ([], Inr None)"
| "request_loop net attempts (attempt # rest) =
     (case net attempt of
        Response st text \<Rightarrow>
          ([Urlopen attempt],
           Inr (Some \<lparr>http_status = st, http_response = text, http_error = None\<rparr>))
      | HTTPError code body msg \<Rightarrow>
          (case body of
             None \<Rightarrow> ([Urlopen attempt], Inl OSError)
           | Some text \<Rightarrow>
               ([Urlopen attempt],
                Inr (Some \<lparr>http_status = Some code, http_response = text, http_error = Some msg\<rparr>)))
      | Failure msg \<Rightarrow>
          (if attempt < attempts - 1
           then (Urlopen attempt # Sleep # fst (request_loop net attempts rest),
                 snd (request_loop net attempts rest))
           else ([Urlopen attempt],
                 Inr (Some \<lparr>http_status = Some 0, http_response = [], http_error = Some msg\<rparr>))))"

definition perform_request ::
  "world \<Rightarrow> string \<Rightarrow> string \<Rightarrow> headers \<Rightarrow> string \<Rightarrow> string \<Rightarrow> string \<Rightarrow> int \<Rightarrow> int
     \<Rightarrow> event list \<times> (exn + http_result option)" where
  "perform_request w method url headers0 body auth_type auth_value timeout retries =
     (let request = build_request w method url headers0 body auth_type auth_value;
          attempts = nat (max 1 (retries + 1));
          timeout' = (if timeout = 0 then 30 else timeout)
      in if \<not> request_accepts_url w url then ([], Inl ValueError)
         else request_loop (urlopen w request timeout') attempts [0..<attempts])"

text \<open>\<^verbatim>\<open>perform_request\<close> of schedule\_api.py: load the client module from its file, then
  call it.\<close>

definition schedule_api_perform_request ::
  "world \<Rightarrow> string \<Rightarrow> string \<Rightarrow> headers \<Rightarrow> string \<Rightarrow> string \<Rightarrow> string \<Rightarrow> int \<Rightarrow> int
     \<Rightarrow> event list \<times> (exn + http_result option)" where
  "schedule_api_perform_request w method url headers0 body auth_type auth_value timeout retries =
     (case load_module w of
        Some e \<Rightarrow> ([LoadModule], Inl e)
      | None \<Rightarrow>
          (LoadModule #
             fst (perform_request w method url headers0 body auth_type auth_value timeout retries),
           snd (perform_request w method url headers0 body auth_type auth_value timeout retries)))"



section \<open>The execution dispatcher (runner.py, tools.py)\<close>

subsection \<open>String helpers\<close>

definition startswith :: "string \<Rightarrow> string \<Rightarrow> bool" where
  "startswith s p = (take (length p) s = p)"

text \<open>\<^verbatim>\<open>s.split(sep, 1)[-1]\<close>: what follows the first occurrence of \<open>sep\<close>, or all of
  \<open>s\<close> when there is none.\<close>

fun after_first :: "string \<Rightarrow> string \<Rightarrow> string option" where
  "after_first sep [] = (if sep = [] then Some [] else None)"
| "after_first sep (c # cs) =
     (if startswith (c # cs) sep then Some (drop (length sep) (c # cs)) else after_first sep cs)"

definition split_last :: "string \<Rightarrow> string \<Rightarrow> string" where
  "split_last sep s = (case after_first sep s of None \<Rightarrow> s | Some r \<Rightarrow> r)"

text \<open>\<^verbatim>\<open>str.strip()\<close> and \<^verbatim>\<open>str.splitlines()\<close>, for code points below 256.\<close>

definition py_strip :: "string \<Rightarrow> string" where
  "py_strip s = rev (dropWhile is_unicode_space (rev (dropWhile is_unicode_space s)))"

definition is_linebreak :: "char \<Rightarrow> bool" where
  "is_linebreak c =
     (c \<in> set [CHR 0x0A, CHR 0x0B, CHR 0x0C, CHR 0x0D, CHR 0x1C, CHR 0x1D, CHR 0x1E, CHR 0x85])"

fun lines_from :: "string \<Rightarrow> string \<Rightarrow> string list" where
  "lines_from cur [] = (if cur = [] then [] else [rev cur])"
| "lines_from cur (c # cs) =
     (if c = CHR 0x0D \<and> cs \<noteq> [] \<and> hd cs = CHR 0x0A then rev cur # lines_from [] (tl cs)
      else if is_linebreak c then rev cur # lines_from [] cs
      else lines_from (c # cur) cs)"

definition splitlines :: "string \<Rightarrow> string list" where
  "splitlines s = lines_from [] s"

text \<open>\<^verbatim>\<open>params.get(key, default)\<close>\<close>

definition dict_get :: "params \<Rightarrow> string \<Rightarrow> string \<Rightarrow> string" where
  "dict_get params key dflt = (case map_of params key of None \<Rightarrow> dflt | Some v \<Rightarrow> v)"

subsection \<open>\<^verbatim>\<open>validate_tool_params\<close> and \<^verbatim>\<open>_execute_tool\<close>\<close>

definition require_field :: "params \<Rightarrow> string \<Rightarrow> string list \<Rightarrow> string list" where
  "require_field params key errors =
     (if dict_get params key [] = [] then errors @ [''Missing '' @ key @ ''.''] else errors)"

definition validate_tool_params :: "string \<Rightarrow> params \<Rightarrow> string list" where
  "validate_tool_params tool_name params =
     (if tool_name \<in> set [''copy'', ''move'', ''zip'']
      then require_field params ''destination'' (require_field params ''source'' [])
      else if tool_name = ''delete'' then require_field params ''target'' []
      else if tool_name = ''download''
      then require_field params ''destination'' (require_field params ''url'' [])
      else if tool_name = ''email''
      then foldl (\<lambda>errors field. require_field params field errors) []
             [''smtp_host'', ''smtp_port'', ''sender'', ''recipient'', ''subject'', ''body'']
      else if tool_name = ''wallpaper'' then require_field params ''image_path'' []
      else if tool_name = ''vpn'' then require_field params ''command'' []
      else [])"

text \<open>\<^verbatim>\<open>params[key]\<close>, with the text of the \<^verbatim>\<open>KeyError\<close> on the left.\<close>

definition subscript :: "world \<Rightarrow> params \<Rightarrow> string \<Rightarrow> string + string" where
  "subscript w params key =
     (case map_of params key of None \<Rightarrow> Inl (repr w key) | Some v \<Rightarrow> Inr v)"

definition two_paths ::
  "world \<Rightarrow> params \<Rightarrow> string \<Rightarrow> string \<Rightarrow> (string \<Rightarrow> string \<Rightarrow> tool_action) \<Rightarrow> string + tool_action" where
  "two_paths w params k1 k2 act =
     (case subscript w params k1 of
        Inl m \<Rightarrow> Inl m
      | Inr a \<Rightarrow> (case subscript w params k2 of Inl m \<Rightarrow> Inl m | Inr b \<Rightarrow> Inr (act a b)))"

text \<open>
  The action \<^verbatim>\<open>_execute_tool\<close> calls on the executor, or the text of the exception it
  raises before the call: a \<^verbatim>\<open>KeyError\<close>, the \<^verbatim>\<open>ValueError\<close> of \<^verbatim>\<open>int\<close> (its text is
  the world's \<open>int_error_text\<close>), or \<^verbatim>\<open>Unknown tool\<close>.
\<close>

definition execute_tool :: "world \<Rightarrow> string \<Rightarrow> params \<Rightarrow> string + tool_action" where
  "execute_tool w tool_name params =
     (if tool_name = ''copy'' then two_paths w params ''source'' ''destination'' CopyPath
      else if tool_name = ''move'' then two_paths w params ''source'' ''destination'' MovePath
      else if tool_name = ''delete''
      then (case subscript w params ''target'' of Inl m \<Rightarrow> Inl m | Inr t \<Rightarrow> Inr (DeletePath t))
      else if tool_name = ''zip'' then two_paths w params ''source'' ''destination'' ZipPath
      else if tool_name = ''download'' then two_paths w params ''url'' ''destination'' DownloadFile
      else if tool_name = ''email'' then
        (let port_text = dict_get params ''smtp_port'' ''25'';
             user = dict_get params ''username'' [];
             pass = dict_get params ''password'' []
         in case (if port_text = [] then Some 25 else py_int port_text) of
              None \<Rightarrow> Inl (int_error_text w port_text)
            | Some port \<Rightarrow>
                Inr (SendEmail (dict_get params ''smtp_host'' []) port
                       (dict_get params ''sender'' []) (dict_get params ''recipient'' [])
                       (dict_get params ''subject'' []) (dict_get params ''body'' [])
                       (if user = [] then None else Some user)
                       (if pass = [] then None else Some pass)
                       (str_lower w (dict_get params ''use_tls'' ''true'') \<noteq> ''false'')))
      else if tool_name = ''wallpaper''
      then (case subscript w params ''image_path'' of
              Inl m \<Rightarrow> Inl m | Inr t \<Rightarrow> Inr (SetWallpaper t))
      else if tool_name = ''reboot'' then Inr Reboot
      else if tool_name = ''shutdown'' then Inr Shutdown
      else if tool_name = ''vpn''
      then Inr (ConnectVpn (filter (\<lambda>part. part \<noteq> [])
                  (split_on CHR '' '' (dict_get params ''command'' []))))
      else Inl (''Unknown tool: '' @ tool_name))"

subsection \<open>The backends\<close>

definition outcome ::
  "world \<Rightarrow> datetime \<Rightarrow> string \<Rightarrow> int option \<Rightarrow> string \<Rightarrow> string \<Rightarrow> run_result" where
  "outcome w start st code out err =
     \<lparr>status = st, exit_code = code, output' = out, error = err,
      start_time = start, end_time = now_end w\<rparr>"

text \<open>\<^verbatim>\<open>_parse_headers\<close>\<close>

fun parse_header_lines :: "string list \<Rightarrow> headers \<Rightarrow> headers" where
  "parse_header_lines [] headers0 = headers0"
| "parse_header_lines (line # rest) headers0 =
     (if py_strip line = [] then parse_header_lines rest headers0
      else if CHR '':'' \<notin> set line then parse_header_lines rest headers0
      else parse_header_lines rest
             (AList.update (py_strip (takeWhile (\<lambda>c. c \<noteq> CHR '':'') line))
                           (py_strip (tl (dropWhile (\<lambda>c. c \<noteq> CHR '':'') line))) headers0))"

definition parse_headers :: "string \<Rightarrow> headers" where
  "parse_headers raw = (if raw = [] then [] else parse_header_lines (splitlines raw) [])"

text \<open>\<^verbatim>\<open>_run_api\<close>: nothing here catches what \<^verbatim>\<open>perform_request\<close> raises.\<close>

definition run_api :: "world \<Rightarrow> job \<Rightarrow> datetime \<Rightarrow> event list \<times> (exn + run_result)" where
  "run_api w j start =
     (let r = schedule_api_perform_request w (api_method j) (api_url j)
                (parse_headers (api_headers j)) (api_body j) (api_auth_type j)
                (api_auth_value j) (api_timeout j) (api_retries j)
      in case snd r of
           Inl e \<Rightarrow> (fst r, Inl e)
         | Inr None \<Rightarrow> (fst r, Inl AttributeError)
         | Inr (Some res) \<Rightarrow>
             (let status_code = (case http_status res of None \<Rightarrow> 0 | Some c \<Rightarrow> c);
                  ok = (200 \<le> status_code \<and> status_code < 300)
              in (fst r,
                  Inr (outcome w start (if ok then ''success'' else ''failed'')
                         (if status_code \<noteq> 0 then Some status_code else None)
                         (http_response res)
                         (case http_error res of None \<Rightarrow> [] | Some m \<Rightarrow> m)))))"

text \<open>\<^verbatim>\<open>_run_tool\<close>\<close>

definition run_tool :: "world \<Rightarrow> job \<Rightarrow> datetime \<Rightarrow> event list \<times> (exn + run_result)" where
  "run_tool w j start =
     (let tool_name = split_last ''tool:'' (program_path j);
          params = parse_tool_params (parameters j);
          errors = validate_tool_params tool_name params
      in if errors \<noteq> [] then ([], Inr (outcome w start ''failed'' (Some 1) [] (join '' '' errors)))
         else (case execute_tool w tool_name params of
                 Inl m \<Rightarrow> ([], Inr (outcome w start ''failed'' None [] m))
               | Inr action \<Rightarrow>
                   (let result = run_tool_action w action
                    in ([ToolCall action],
                        Inr (outcome w start (if success result then ''success'' else ''failed'')
                               (Some (if success result then 0 else 1))
                               (if success result then message result else [])
                               (if success result then [] else message result))))))"

text \<open>\<^verbatim>\<open>_command_line\<close>, and the same quoting in \<^verbatim>\<open>_shell_execute_admin\<close>.\<close>

definition quote_arg :: "string \<Rightarrow> string" where
  "quote_arg arg = (if CHR '' '' \<in> set arg then [CHR 0x22] @ arg @ [CHR 0x22] else arg)"

definition command_line :: "string list \<Rightarrow> string" where
  "command_line command = join '' '' (map quote_arg command)"

text \<open>\<^verbatim>\<open>_run_as_admin\<close> (here \<open>run_as_admin'\<close>, the job's flag has the plain name) with
  \<^verbatim>\<open>_shell_execute_admin\<close>: the native call is the world's
  \<open>shell_execute_ex\<close>, which gives the exit code or the text of the exception.\<close>

definition run_as_admin' ::
  "world \<Rightarrow> string list \<Rightarrow> datetime \<Rightarrow> event list \<times> (exn + run_result)" where
  "run_as_admin' w command start =
     (if command = [] then ([], Inr (outcome w start ''failed'' (Some 1) [] []))
      else (case shell_execute_ex w (hd command) (join '' '' (map quote_arg (tl command))) of
              Inl m \<Rightarrow> ([ShellExecuteAdmin (hd command) (join '' '' (map quote_arg (tl command)))],
                        Inr (outcome w start ''failed'' None [] m))
            | Inr code \<Rightarrow>
                ([ShellExecuteAdmin (hd command) (join '' '' (map quote_arg (tl command)))],
                 Inr (outcome w start (if code = 0 then ''success'' else ''failed'')
                        (Some code) [] []))))"

text \<open>\<^verbatim>\<open>_run_as\<close>: the temporary file, the native call and the reading of the output
  file are the world's; the removal of the file in the \<^verbatim>\<open>finally\<close> clause is taken not
  to raise.\<close>

definition run_as ::
  "world \<Rightarrow> job \<Rightarrow> string list \<Rightarrow> datetime \<Rightarrow> event list \<times> (exn + run_result)" where
  "run_as w j command start =
     (if str_lower w (platform_system w) \<noteq> ''windows''
      then ([], Inr (outcome w start ''failed'' None [] ''Run-as is only supported on Windows.''))
      else (case make_temp_file w of
              Inl m \<Rightarrow> ([], Inr (outcome w start ''failed'' None [] m))
            | Inr output_path \<Rightarrow>
                (let wrapped = ''cmd.exe /c '' @ [CHR 0x22] @ command_line command @ '' 1> ''
                                 @ [CHR 0x22] @ output_path @ [CHR 0x22] @ '' 2>&1'' @ [CHR 0x22];
                     ev = CreateProcessWithLogon (run_as_user j) (run_as_domain j)
                            (run_as_password j) wrapped
                 in case create_process_with_logon w (run_as_user j) (run_as_domain j)
                           (run_as_password j) wrapped of
                      Inl m \<Rightarrow> ([ev], Inr (outcome w start ''failed'' None [] m))
                    | Inr code \<Rightarrow>
                        (case read_output w output_path of
                           Inl m \<Rightarrow> ([ev], Inr (outcome w start ''failed'' None [] m))
                         | Inr out \<Rightarrow>
                             ([ev], Inr (outcome w start (if code = 0 then ''success'' else ''failed'')
                                           (Some code) out []))))))"

text \<open>The direct child process of \<^verbatim>\<open>run_job\<close>.\<close>

definition run_direct ::
  "world \<Rightarrow> string list \<Rightarrow> datetime \<Rightarrow> event list \<times> (exn + run_result)" where
  "run_direct w command start =
     ([SubprocessRun command],
      Inr (case subprocess_run w command (default_timeout w) of
             Completed rc out err \<Rightarrow>
               outcome w start (if rc = 0 then ''success'' else ''failed'') (Some rc) out err
           | TimeoutExpired out err \<Rightarrow>
               outcome w start ''timeout'' None
                 (case out of None \<Rightarrow> [] | Some s \<Rightarrow> s)
                 (case err of None \<Rightarrow> ''Process timed out.''
                            | Some s \<Rightarrow> if s = [] then ''Process timed out.'' else s)
           | RunError m \<Rightarrow> outcome w start ''failed'' None [] m))"

text \<open>\<^verbatim>\<open>_build_command\<close>: \<^verbatim>\<open>Path(p).exists()\<close> and \<^verbatim>\<open>shlex.split\<close> are the world's and
  may raise.\<close>

definition build_command :: "world \<Rightarrow> job \<Rightarrow> exn + string list option" where
  "build_command w j =
     (if startswith (program_path j) ''tool:'' then Inr None
      else if batch_path j \<noteq> [] then
        (case path_exists w (batch_path j) of
           None \<Rightarrow> Inl OSError
         | Some False \<Rightarrow> Inr None
         | Some True \<Rightarrow> Inr (Some [''cmd.exe'', ''/c'', path_str w (batch_path j)]))
      else if program_path j \<noteq> [] then
        (case path_exists w (program_path j) of
           None \<Rightarrow> Inl OSError
         | Some False \<Rightarrow> Inr None
         | Some True \<Rightarrow>
             (if parameters j \<noteq> [] then
                (case shlex_split w (parameters j) of
                   None \<Rightarrow> Inl ValueError
                 | Some args \<Rightarrow> Inr (Some (path_str w (program_path j) # args)))
              else Inr (Some [path_str w (program_path j)])))
      else Inr None)"

text \<open>\<^verbatim>\<open>JobRunner.run_job\<close>\<close>

definition run_job :: "world \<Rightarrow> job \<Rightarrow> event list \<times> (exn + run_result)" where
  "run_job w j =
     (let start = now_start w in
      if api_enabled j \<and> api_url j \<noteq> [] \<and> api_method j \<noteq> [] then run_api w j start
      else if startswith (program_path j) ''tool:'' then run_tool w j start
      else (case build_command w j of
              Inl e \<Rightarrow> ([], Inl e)
            | Inr None \<Rightarrow>
                ([], Inr (outcome w start ''failed'' None []
                            ''No executable or batch file configured.''))
            | Inr (Some command) \<Rightarrow>
                (if command = []
                 then ([], Inr (outcome w start ''failed'' None []
                                  ''No executable or batch file configured.''))
                 else if run_as_admin j then run_as_admin' w command start
                 else if run_as_enabled j \<and> run_as_user j \<noteq> [] \<and> run_as_password j \<noteq> []
                 then run_as w j command start
                 else run_direct w command start)))"




section \<open>The scheduler's loop thread (scheduler.py, \<^verbatim>\<open>start\<close>, \<^verbatim>\<open>ensure_running\<close>, \<^verbatim>\<open>stop\<close>)\<close>

text \<open>
  The part of a \<^verbatim>\<open>SchedulerEngine\<close> that these methods read and write: the thread object
  in \<^verbatim>\<open>_thread\<close> (threads are numbered as they are created), the loop threads that are
  alive, the stop event, and whether the worker pool was shut down. The calls of one engine
  are taken one after the other, as the window's timer and the service make them; each call
  is one step, and so is the end of a loop thread.
\<close>

record engine =
  thread :: "nat option"
  alive :: "nat list"
  stop_event :: bool
  created :: nat
  pool_shut_down :: bool

definition is_alive :: "engine \<Rightarrow> bool" where
  "is_alive e = (case thread e of None \<Rightarrow> False | Some t \<Rightarrow> t \<in> set (alive e))"

text \<open>
  \<^verbatim>\<open>start\<close>. The flag says whether \<^verbatim>\<open>Thread.start()\<close> succeeds; when it raises
  \<^verbatim>\<open>RuntimeError\<close> the event is already cleared and \<^verbatim>\<open>_thread\<close> holds the new thread,
  which is not alive.
\<close>

definition start :: "bool \<Rightarrow> engine \<Rightarrow> engine" where
  "start can_start e =
     (if is_alive e then e
      else e\<lparr>stop_event := False, thread := Some (created e),
             alive := (if can_start then created e # alive e else alive e),
             created := Suc (created e)\<rparr>)"

definition ensure_running :: "bool \<Rightarrow> engine \<Rightarrow> engine" where
  "ensure_running can_start e = (if \<not> is_alive e then start can_start e else e)"

text \<open>The end of the loop thread \<open>t\<close>.\<close>

definition loop_exit :: "nat \<Rightarrow> engine \<Rightarrow> engine" where
  "loop_exit t e = e\<lparr>alive := removeAll t (alive e)\<rparr>"

text \<open>\<^verbatim>\<open>stop\<close>: set the event, wait up to five seconds for the thread (the flag says
  whether it ended in that time), shut the pool down.\<close>

definition stop :: "bool \<Rightarrow> engine \<Rightarrow> engine" where
  "stop joined e =
     (let e1 = e\<lparr>stop_event := True\<rparr>;
          e2 = (case thread e1 of
                  None \<Rightarrow> e1
                | Some t \<Rightarrow> if joined then loop_exit t e1 else e1)
      in e2\<lparr>pool_shut_down := True\<rparr>)"

datatype call = Start bool | EnsureRunning bool | Stop bool | LoopExit nat

fun step :: "call \<Rightarrow> engine \<Rightarrow> engine" where
  "step (Start b) e = start b e"
| "step (EnsureRunning b) e = ensure_running b e"
| "step (Stop b) e = stop b e"
| "step (LoopExit t) e = loop_exit t e"

definition run_calls :: "call list \<Rightarrow> engine \<Rightarrow> engine" where
  "run_calls calls e = fold step calls e"

definition is_start_call :: "call \<Rightarrow> bool" where
  "is_start_call c = (case c of Start b \<Rightarrow> True | EnsureRunning b \<Rightarrow> True | _ \<Rightarrow> False)"

text \<open>The engine as \<^verbatim>\<open>__init__\<close> leaves it.\<close>

definition new_engine :: engine where
  "new_engine = \<lparr>thread = None, alive = [], stop_event = False, created = 0,
                  pool_shut_down = False\<rparr>"

section \<open>The next run of a job (repository.py)\<close>

text \<open>
  \<^verbatim>\<open>now + timedelta(days=n)\<close>: the date moves \<open>n\<close> days on in the calendar and the time of
  day stays; a result after the year 9999 raises \<^verbatim>\<open>OverflowError\<close>.
\<close>

definition next_day :: "datetime \<Rightarrow> datetime" where
  "next_day dt =
     (if day dt < days_in_month (year dt) (month dt) then dt\<lparr>day := day dt + 1\<rparr>
      else if month dt < 12 then dt\<lparr>month := month dt + 1, day := 1\<rparr>
      else dt\<lparr>year := year dt + 1, month := 1, day := 1\<rparr>)"

fun add_days :: "datetime \<Rightarrow> nat \<Rightarrow> exn + datetime" where
  "add_days dt 0 = Inr dt"
| "add_days dt (Suc n) =
     (case add_days dt n of
        Inl e \<Rightarrow> Inl e
      | Inr d \<Rightarrow> if year (next_day d) > 9999 then Inl OverflowError else Inr (next_day d))"

text \<open>\<^verbatim>\<open>_minute_to_datetime\<close>: \<^verbatim>\<open>replace\<close> raises \<^verbatim>\<open>ValueError\<close> for an hour outside
  0 to 23; the minute is a remainder modulo 60.\<close>

definition minute_to_datetime :: "datetime \<Rightarrow> int \<Rightarrow> exn + datetime" where
  "minute_to_datetime reference minute_of_day' =
     (let hour' = minute_of_day' div 60; minute' = minute_of_day' mod 60
      in if 0 \<le> hour' \<and> hour' \<le> 23
         then Inr (reference\<lparr>hour := hour', minute := minute', second := 0, microsecond := 0\<rparr>)
         else Inl ValueError)"

text \<open>
  The inner loop of \<^verbatim>\<open>_next_recurring_run\<close> over the slots, for one day offset: \<open>None\<close>
  when every slot is passed over, otherwise what the \<^verbatim>\<open>return\<close> gives or raises.
\<close>

fun recurring_slots ::
  "datetime \<Rightarrow> nat \<Rightarrow> datetime \<Rightarrow> int \<Rightarrow> slot list \<Rightarrow> (exn + datetime) option" where
  "recurring_slots now day_offset target day_mask [] = None"
| "recurring_slots now day_offset target day_mask (s # rest) =
     (if (days_mask s AND day_mask) = 0 then recurring_slots now day_offset target day_mask rest
      else if day_offset = 0 \<and> minute_of_day s < hour now * 60 + minute now
      then recurring_slots now day_offset target day_mask rest
      else Some (minute_to_datetime target (minute_of_day s)))"

fun recurring_days :: "datetime \<Rightarrow> slot list \<Rightarrow> nat list \<Rightarrow> exn + datetime option" where
  "recurring_days now slots [] = Inr None"
| "recurring_days now slots (day_offset # rest) =
     (case add_days now day_offset of
        Inl e \<Rightarrow> Inl e
      | Inr target \<Rightarrow>
          (case recurring_slots now day_offset target (weekday_mask target) slots of
             None \<Rightarrow> recurring_days now slots rest
           | Some (Inl e) \<Rightarrow> Inl e
           | Some (Inr r) \<Rightarrow> Inr (Some r)))"

definition next_recurring_run :: "datetime \<Rightarrow> slot list \<Rightarrow> exn + datetime option" where
  "next_recurring_run now slots = recurring_days now slots [0..<8]"

text \<open>
  The slot loop shared by \<^verbatim>\<open>_next_date_run\<close> and \<^verbatim>\<open>_next_monthly_run\<close>: on the target
  date itself a slot before the current minute is passed over; \<open>reference\<close> is the
  \<^verbatim>\<open>datetime\<close> handed to \<^verbatim>\<open>_minute_to_datetime\<close>.
\<close>

fun dated_slots :: "datetime \<Rightarrow> datetime \<Rightarrow> datetime \<Rightarrow> slot list \<Rightarrow> (exn + datetime) option" where
  "dated_slots now target reference [] = None"
| "dated_slots now target reference (s # rest) =
     (if same_date target now \<and> minute_of_day s < hour now * 60 + minute now
      then dated_slots now target reference rest
      else Some (minute_to_datetime reference (minute_of_day s)))"

text \<open>
  \<^verbatim>\<open>_next_date_run\<close>. \<^verbatim>\<open>datetime.fromisoformat\<close> is a parameter: \<open>None\<close> is its
  \<^verbatim>\<open>ValueError\<close>. \<^verbatim>\<open>datetime.combine(target_date, now.time())\<close> is \<open>now\<close> with the date
  of the target. \<^verbatim>\<open>slots[0]\<close> of an empty list raises \<^verbatim>\<open>IndexError\<close>.
\<close>

definition combine :: "datetime \<Rightarrow> datetime \<Rightarrow> datetime" where
  "combine target_date time_of = time_of\<lparr>year := year target_date, month := month target_date,
                                          day := day target_date\<rparr>"

definition next_date_run ::
  "(string \<Rightarrow> datetime option) \<Rightarrow> datetime \<Rightarrow> slot list \<Rightarrow> exn + datetime option" where
  "next_date_run fromisoformat now slots =
     (case slots of
        [] \<Rightarrow> Inl IndexError
      | first # others \<Rightarrow>
          (case date first of
             None \<Rightarrow> Inr None
           | Some date_str \<Rightarrow>
               if date_str = [] then Inr None
               else (case fromisoformat date_str of
                       None \<Rightarrow> Inr None
                     | Some target_date \<Rightarrow>
                         if date_less target_date now then Inr None
                         else (case dated_slots now target_date (combine target_date now) slots of
                                 None \<Rightarrow> Inr None
                               | Some (Inl e) \<Rightarrow> Inl e
                               | Some (Inr r) \<Rightarrow> Inr (Some r)))))"

text \<open>
  \<^verbatim>\<open>_next_monthly_run\<close>. \<^verbatim>\<open>datetime(year, month, day)\<close> raises \<^verbatim>\<open>ValueError\<close> for a day
  below 1 and for a year above 9999; the month is in range and the day is at most the
  month's length by construction.
\<close>

definition make_date :: "int \<Rightarrow> int \<Rightarrow> int \<Rightarrow> exn + datetime" where
  "make_date y m d =
     (if 1 \<le> y \<and> y \<le> 9999 \<and> 1 \<le> m \<and> m \<le> 12 \<and> 1 \<le> d \<and> d \<le> days_in_month y m
      then Inr \<lparr>year = y, month = m, day = d, hour = 0, minute = 0, second = 0, microsecond = 0\<rparr>
      else Inl ValueError)"

fun monthly_months :: "datetime \<Rightarrow> int \<Rightarrow> slot list \<Rightarrow> nat list \<Rightarrow> exn + datetime option" where
  "monthly_months now scheduled_day slots [] = Inr None"
| "monthly_months now scheduled_day slots (month_offset # rest) =
     (let target_month0 = month now + int month_offset;
          target_year = year now + (target_month0 - 1) div 12;
          target_month = (target_month0 - 1) mod 12 + 1;
          last_day = days_in_month target_year target_month;
          run_day = min scheduled_day last_day
      in case make_date target_year target_month run_day of
           Inl e \<Rightarrow> Inl e
         | Inr target_date \<Rightarrow>
             if date_less target_date now then monthly_months now scheduled_day slots rest
             else (case dated_slots now target_date target_date slots of
                     None \<Rightarrow> monthly_months now scheduled_day slots rest
                   | Some (Inl e) \<Rightarrow> Inl e
                   | Some (Inr r) \<Rightarrow> Inr (Some r)))"

definition next_monthly_run :: "datetime \<Rightarrow> slot list \<Rightarrow> exn + datetime option" where
  "next_monthly_run now slots =
     (case slots of
        [] \<Rightarrow> Inl IndexError
      | first # others \<Rightarrow>
          (case py_int (case date first of None \<Rightarrow> [] | Some t \<Rightarrow> t) of
             None \<Rightarrow> Inr None
           | Some scheduled_day \<Rightarrow> monthly_months now scheduled_day slots [0..<13]))"

text \<open>
  \<^verbatim>\<open>Repository.next_run_for_job\<close>, with \<^verbatim>\<open>datetime.now()\<close> as the argument \<open>now\<close>. The
  query returns the job's active slots ordered by minute of the day; the kind of the first
  row decides for all of them.
\<close>

definition active_slots :: "db \<Rightarrow> int \<Rightarrow> slot list" where
  "active_slots d job_id' =
     sort_key minute_of_day (filter (\<lambda>s. job_id s = job_id' \<and> slot_active s) (schedules d))"

definition next_run_for_job ::
  "(string \<Rightarrow> datetime option) \<Rightarrow> db \<Rightarrow> datetime \<Rightarrow> int \<Rightarrow> exn + datetime option" where
  "next_run_for_job fromisoformat d now job_id' =
     (case active_slots d job_id' of
        [] \<Rightarrow> Inr None
      | first # others \<Rightarrow>
          if schedule_type first = ''date''
          then next_date_run fromisoformat now (first # others)
          else if schedule_type first = ''monthly''
          then next_monthly_run now (first # others)
          else next_recurring_run now (first # others))"

section \<open>Sample data\<close>

text \<open>A job that runs a program, one schedule slot, and a few instants, used to evaluate the
  definitions at concrete inputs.\<close>

definition sample_job :: job where
  "sample_job =
     \<lparr>jid = 1, name = ''backup'', description = '''', send_to = '''',
      program_path = ''C:/tools/backup.exe'', parameters = '''', batch_path = '''',
      api_enabled = False, api_method = '''', api_url = '''', api_headers = '''',
      api_body = '''', api_auth_type = '''', api_auth_value = '''', api_timeout = 0,
      api_retries = 0, active = True, once_per_day = False, autostart = False,
      run_as_enabled = False, run_as_admin = False, run_as_user = '''',
      run_as_domain = '''', run_as_password = '''', last_run_at = None\<rparr>"

definition at :: "int \<Rightarrow> int \<Rightarrow> int \<Rightarrow> int \<Rightarrow> int \<Rightarrow> int \<Rightarrow> datetime" where
  "at y mo d h mi s =
     \<lparr>year = y, month = mo, day = d, hour = h, minute = mi, second = s, microsecond = 0\<rparr>"

definition sample_slot :: "string \<Rightarrow> int \<Rightarrow> string option \<Rightarrow> int \<Rightarrow> slot" where
  "sample_slot kind dm dt m =
     \<lparr>sid = 7, job_id = 1, schedule_type = kind, days_mask = dm, date = dt,
      minute_of_day = m, slot_active = True\<rparr>"

definition sample_db :: "job \<Rightarrow> slot \<Rightarrow> db" where
  "sample_db j s = \<lparr>jobs = [j], schedules = [s], run_logs = []\<rparr>"

definition sample_result :: "string \<Rightarrow> int \<Rightarrow> run_result" where
  "sample_result st code =
     \<lparr>status = st, exit_code = Some code, output' = '''', error = '''',
      start_time = at 2025 4 30 10 0 1, end_time = at 2025 4 30 10 0 2\<rparr>"

text \<open>Two calls of \<^verbatim>\<open>persist_run\<close> for the same job and scheduled minute, the second
  on the database the first one left.\<close>

definition persist_twice :: "db \<Rightarrow> int \<Rightarrow> datetime \<Rightarrow> run_result \<Rightarrow> run_result \<Rightarrow> exn + db" where
  "persist_twice d job_id' scheduled_time' r1 r2 =
     (case persist_run d job_id' scheduled_time' r1 of
        Inl e \<Rightarrow> Inl e
      | Inr d1 \<Rightarrow> persist_run d1 job_id' scheduled_time' r2)"

text \<open>A world in which the network answers the call number \<open>k\<close> of \<^verbatim>\<open>urlopen\<close> with
  \<open>net k\<close>, the client module loads, only the sample job's program exists, and accepted
  URLs start with \<^verbatim>\<open>http://\<close>. The string functions are stand-ins.\<close>

definition sample_world :: "(nat \<Rightarrow> urlopen_outcome) \<Rightarrow> world" where
  "sample_world net =
     \<lparr>now_start = at 2025 4 30 10 0 1, now_end = at 2025 4 30 10 0 2,
      str_upper = (\<lambda>s. s), str_lower = (\<lambda>s. s), b64encode = (\<lambda>s. s),
      request_accepts_url = (\<lambda>u. startswith u ''http://''),
      urlopen = (\<lambda>request timeout. net),
      load_module = None,
      path_exists = (\<lambda>p. Some (p = ''C:/tools/backup.exe'')),
      path_str = (\<lambda>p. p),
      shlex_split = (\<lambda>s. if CHR 0x22 \<in> set s then None else Some (split_on CHR '' '' s)),
      default_timeout = 3600,
      subprocess_run = (\<lambda>command timeout. Completed 0 [] []),
      shell_execute_ex = (\<lambda>file ps. Inr 0),
      platform_system = ''Windows'',
      make_temp_file = Inr ''C:/temp/out.log'',
      create_process_with_logon = (\<lambda>u d p c. Inr 0),
      read_output = (\<lambda>p. Inr []),
      run_tool_action = (\<lambda>a. \<lparr>success = True, message = ''done''\<rparr>),
      repr = (\<lambda>s. s), int_error_text = (\<lambda>s. ''invalid literal'')\<rparr>"

definition fails_twice :: "nat \<Rightarrow> urlopen_outcome" where
  "fails_twice k = (if k < 2 then Failure ''timed out'' else Response (Some 200) ''pong'')"


definition api_job :: job where
  "api_job = sample_job\<lparr>api_enabled := True, api_method := ''GET'',
                         api_url := ''http://localhost/ping'', api_retries := 2\<rparr>"

section \<open>Evaluation rules\<close>

text \<open>\<open>str_nat\<close> unfolds on literals only, so that simplification of a concrete instant
  ends.\<close>

lemma str_nat_0 [simp]: "str_nat 0 = ''0''"
  by (simp add: str_nat.simps digit_char_def)

lemma str_nat_1 [simp]: "str_nat (Suc 0) = ''1''"
  by (simp add: str_nat.simps digit_char_def)

lemma str_nat_numeral [simp]:
  "str_nat (numeral k) =
     (if numeral k < (10::nat) then [digit_char (numeral k)]
      else str_nat (numeral k div 10) @ [digit_char (numeral k mod 10)])"
  by (rule str_nat.simps)

lemmas eval_time = weekday_def weekday_mask_def toordinal_def days_before_year_def
  days_before_month_def is_leap_def days_in_month_def date_isoformat_def isoformat_minutes_def
  isoformat_seconds_def zero_pad_def digit_char_def truncate_to_minute_def at_def

lemmas eval_int = py_int_def strip_def is_space_def is_ascii_def is_c_space_def
  is_unicode_space_def is_digit_def digits_value_def

lemmas eval_sched = get_due_jobs_def due_rows_def sql_where_def row_is_due_def has_run_log_def
  Let_def

lemma sample_job_fields [simp]:
  "jid sample_job = 1" "active sample_job" "\<not> once_per_day sample_job"
  "last_run_at sample_job = None" "program_path sample_job = ''C:/tools/backup.exe''"
  "parameters sample_job = []" "batch_path sample_job = []" "\<not> api_enabled sample_job"
  "\<not> run_as_admin sample_job" "\<not> run_as_enabled sample_job"
  by (simp_all add: sample_job_def)

lemma api_job_fields [simp]:
  "api_enabled api_job" "api_method api_job = ''GET''" "api_url api_job = ''http://localhost/ping''"
  "api_headers api_job = []" "api_body api_job = []" "api_auth_type api_job = []"
  "api_auth_value api_job = []" "api_timeout api_job = 0" "api_retries api_job = 2"
  by (simp_all add: api_job_def sample_job_def)

lemma sample_world_fields [simp]:
  "now_start (sample_world net) = at 2025 4 30 10 0 1"
  "now_end (sample_world net) = at 2025 4 30 10 0 2"
  "str_upper (sample_world net) s = s"
  "request_accepts_url (sample_world net) u = startswith u ''http://''"
  "urlopen (sample_world net) request timeout = net"
  "load_module (sample_world net) = None"
  "path_exists (sample_world net) p = Some (p = ''C:/tools/backup.exe'')"
  "path_str (sample_world net) p = p"
  "shlex_split (sample_world net) s
     = (if CHR 0x22 \<in> set s then None else Some (split_on CHR '' '' s))"
  by (simp_all add: sample_world_def)

lemma sample_slot_fields [simp]:
  "sid (sample_slot kind dm dt m) = 7" "job_id (sample_slot kind dm dt m) = 1"
  "schedule_type (sample_slot kind dm dt m) = kind" "days_mask (sample_slot kind dm dt m) = dm"
  "date (sample_slot kind dm dt m) = dt" "minute_of_day (sample_slot kind dm dt m) = m"
  "slot_active (sample_slot kind dm dt m)"
  by (simp_all add: sample_slot_def)

lemma sample_db_fields [simp]:
  "jobs (sample_db j s) = [j]" "schedules (sample_db j s) = [s]" "run_logs (sample_db j s) = []"
  by (simp_all add: sample_db_def)

lemma py_int_31: "py_int ''31'' = Some 31"
  by (simp add: eval_int)

section \<open>The text of a date determines the date\<close>

lemma digit_char_value: "d < 10 \<Longrightarrow> int (of_char (digit_char d)) - 48 = int d"
proof -
  assume "d < 10"
  then have "d \<in> {0, 1, 2, 3, 4, 5, 6, 7, 8, 9}" by auto
  then show ?thesis by (auto simp: digit_char_def)
qed

lemma digits_value_snoc:
  "digits_value (xs @ [c]) = 10 * digits_value xs + (int (of_char c) - 48)"
  by (simp add: digits_value_def)

lemma digits_value_str_nat: "digits_value (str_nat n) = int n"
proof (induction n rule: str_nat.induct)
  case (1 n)
  show ?case
  proof (cases "n < 10")
    case True
    then show ?thesis
      using digit_char_value[of n] by (subst str_nat.simps) (simp add: digits_value_def)
  next
    case False
    have "n mod 10 < 10" by simp
    moreover have "10 * int (n div 10) + int (n mod 10) = int n" by presburger
    ultimately show ?thesis
      using digit_char_value[of "n mod 10"] 1[OF False] False
      by (subst str_nat.simps) (simp add: digits_value_snoc)
  qed
qed

lemma digits_value_zeros:
  "digits_value (replicate k CHR ''0'' @ s) = digits_value s"
  by (induction k) (simp_all add: digits_value_def)

lemma digits_value_zero_pad: "0 \<le> n \<Longrightarrow> digits_value (zero_pad w n) = n"
  by (simp add: zero_pad_def Let_def digits_value_zeros digits_value_str_nat)

lemma length_str_nat: "n < 10 ^ k \<Longrightarrow> 0 < k \<Longrightarrow> length (str_nat n) \<le> k"
proof (induction k arbitrary: n)
  case 0
  then show ?case by simp
next
  case (Suc k)
  show ?case
  proof (cases "n < 10")
    case True
    then show ?thesis by (subst str_nat.simps) simp
  next
    case False
    with Suc.prems have "n div 10 < 10 ^ k" by simp
    moreover from False Suc.prems have "0 < k" by (cases k) auto
    ultimately have "length (str_nat (n div 10)) \<le> k" by (rule Suc.IH)
    with False show ?thesis by (subst str_nat.simps) simp
  qed
qed

lemma length_str_nat_2: "n < 100 \<Longrightarrow> length (str_nat n) \<le> 2"
  using length_str_nat[of n 2] by simp

lemma length_str_nat_4: "n < 10000 \<Longrightarrow> length (str_nat n) \<le> 4"
  using length_str_nat[of n 4] by simp

lemma length_zero_pad: "length (str_nat (nat n)) \<le> w \<Longrightarrow> length (zero_pad w n) = w"
  by (simp add: zero_pad_def Let_def)

lemma zero_pad_inj:
  "0 \<le> a \<Longrightarrow> 0 \<le> b \<Longrightarrow> zero_pad w a = zero_pad w b \<Longrightarrow> a = b"
  using digits_value_zero_pad by metis

lemma date_isoformat_inj:
  assumes "valid_datetime a" and "valid_datetime b"
    and "date_isoformat a = date_isoformat b"
  shows "same_date a b"
proof -
  have days: "\<And>y m. days_in_month y m \<le> 31" by (simp add: days_in_month_def)
  have la: "length (zero_pad 4 (year a)) = 4" "length (zero_pad 2 (month a)) = 2"
    using assms(1) by (auto simp: valid_datetime_def intro!: length_zero_pad length_str_nat_4 length_str_nat_2)
  have lb: "length (zero_pad 4 (year b)) = 4" "length (zero_pad 2 (month b)) = 2"
    using assms(2) by (auto simp: valid_datetime_def intro!: length_zero_pad length_str_nat_4 length_str_nat_2)
  from assms(3) la lb have
    "zero_pad 4 (year a) = zero_pad 4 (year b)"
    "zero_pad 2 (month a) = zero_pad 2 (month b)"
    "zero_pad 2 (day a) = zero_pad 2 (day b)"
    by (auto simp: date_isoformat_def)
  then show ?thesis
    using assms(1,2) by (auto simp: same_date_def valid_datetime_def dest!: zero_pad_inj[rotated 2])
qed

section \<open>Round trip of the tool parameter string\<close>

lemma split_on_no_sep: "c \<notin> set s \<Longrightarrow> split_on c s = [s]"
  by (induction s) auto

lemma split_on_append: "c \<notin> set s \<Longrightarrow> split_on c (s @ c # t) = s # split_on c t"
  by (induction s) auto

lemma split_on_join:
  "items \<noteq> [] \<Longrightarrow> \<forall>i \<in> set items. c \<notin> set i \<Longrightarrow> split_on c (join [c] items) = items"
proof (induction "[c]" items rule: join.induct)
  case 1 then show ?case by simp
next
  case (2 x) then show ?case by (simp add: split_on_no_sep)
next
  case (3 x y ys)
  then show ?case by (simp add: split_on_append)
qed

lemma parse_items_entries:
  "\<forall>kv \<in> set p. fst kv \<noteq> [] \<and> CHR ''='' \<notin> set (fst kv) \<Longrightarrow>
   parse_items (map (\<lambda>(key, value). key @ ''='' @ value) p) acc
     = fold (\<lambda>(k, v). AList.update k v) p acc"
proof (induction p arbitrary: acc)
  case Nil then show ?case by simp
next
  case (Cons kv p)
  obtain k v where kv: "kv = (k, v)" by (cases kv)
  from Cons.prems kv have k: "k \<noteq> []" "CHR ''='' \<notin> set k" by auto
  have tw: "takeWhile (\<lambda>c. c \<noteq> CHR ''='') (k @ CHR ''='' # v) = k"
    using k(2) by (induction k) auto
  have dw: "dropWhile (\<lambda>c. c \<noteq> CHR ''='') (k @ CHR ''='' # v) = CHR ''='' # v"
    using k(2) by (induction k) auto
  show ?case using Cons k kv by (simp add: tw dw)
qed

lemma update_fresh: "k \<notin> fst ` set acc \<Longrightarrow> AList.update k v acc = acc @ [(k, v)]"
  by (induction acc) auto

lemma fold_update_distinct:
  "distinct (map fst (acc @ p)) \<Longrightarrow> fold (\<lambda>(k, v). AList.update k v) p acc = acc @ p"
proof (induction p arbitrary: acc)
  case Nil then show ?case by simp
next
  case (Cons kv p)
  obtain k v where kv: "kv = (k, v)" by (cases kv)
  from Cons.prems kv have fresh: "k \<notin> fst ` set acc" by auto
  from Cons.prems kv have "distinct (map fst ((acc @ [(k, v)]) @ p))" by simp
  from Cons.IH[OF this] show ?case using kv fresh by (simp add: update_fresh)
qed

text \<open>
  Claim C10. A dictionary of tool parameters (distinct keys, in insertion order) whose keys
  are non-empty and contain neither \<^verbatim>\<open>=\<close> nor \<^verbatim>\<open>;\<close>, and whose values contain no
  \<^verbatim>\<open>;\<close>, is read back unchanged, entry for entry and in the same order, by
  \<^verbatim>\<open>parse_tool_params\<close> from the string \<^verbatim>\<open>serialize_tool_params\<close> writes.
\<close>

theorem tool_params_roundtrip:
  assumes "distinct (map fst p)"
    and "\<forall>kv \<in> set p. fst kv \<noteq> [] \<and> CHR ''='' \<notin> set (fst kv)
            \<and> CHR '';'' \<notin> set (fst kv) \<and> CHR '';'' \<notin> set (snd kv)"
  shows "parse_tool_params (serialize_tool_params p) = p"
proof (cases p)
  case Nil
  then show ?thesis by (simp add: parse_tool_params_def serialize_tool_params_def)
next
  case (Cons a list)
  let ?items = "map (\<lambda>(key, value). key @ ''='' @ value) p"
  have ne: "?items \<noteq> []" using Cons by simp
  have nosep: "\<forall>i \<in> set ?items. CHR '';'' \<notin> set i" using assms(2) by auto
  have "join '';'' ?items \<noteq> []" using Cons by (cases a; cases list) auto
  moreover have "split_on CHR '';'' (join '';'' ?items) = ?items"
    using split_on_join[OF ne nosep] by simp
  ultimately show ?thesis
    using assms parse_items_entries[of p "[]"] fold_update_distinct[of "[]" p]
    by (simp add: parse_tool_params_def serialize_tool_params_def)
qed

theorem tool_params_roundtrip_witness:
  "parse_tool_params (serialize_tool_params [(''source'', ''a=b''), (''destination'', '''')])
     = [(''source'', ''a=b''), (''destination'', '''')]"
  using tool_params_roundtrip [of "[(''source'', ''a=b''), (''destination'', '''')]"]
  by simp

section \<open>Recording a run twice\<close>

lemma map_jid_set_last_run: "map jid (map (set_last_run j t) js) = map jid js"
  by (induction js) (auto simp: set_last_run_def)

lemma run_logs_for_insert:
  "filter (\<lambda>r. log_job_id r = j \<and> log_scheduled_time r = isoformat_minutes t)
      (insert_or_replace (run_row j t r) rows) = [run_row j t r]"
  by (induction rows) (auto simp: insert_or_replace_def same_key_def run_row_def)

text \<open>
  Claim C1, as the code has it. For a job that exists, with a job id and exit codes that
  fit an SQLite integer (signed 64 bits), persisting the outcome \<open>r1\<close> for \<open>(j, t)\<close> and
  then \<open>r2\<close> for the same \<open>(j, t)\<close> succeeds and leaves exactly one run record keyed by
  \<open>(j, t)\<close>; that record holds the outcome \<open>r2\<close> of the second call: the
  statement is \<^verbatim>\<open>INSERT OR REPLACE\<close>, so the later write replaces the earlier one.
\<close>

theorem persist_run_last_write_wins:
  assumes "j \<in> set (map jid (jobs d))" and "in_int64 j"
    and "exit_code_fits r1" and "exit_code_fits r2"
  shows "\<exists>d2. persist_twice d j t r1 r2 = Inr d2 \<and> run_logs_for d2 j t = [run_row j t r2]"
proof -
  let ?d1 = "d\<lparr>run_logs := insert_or_replace (run_row j t r1) (run_logs d),
                 jobs := map (set_last_run j (end_time r1)) (jobs d)\<rparr>"
  have 1: "persist_run d j t r1 = Inr ?d1"
    using assms by (simp add: persist_run_def)
  have "jobs ?d1 = map (set_last_run j (end_time r1)) (jobs d)"
    by simp
  then have "j \<in> set (map jid (jobs ?d1))"
    using assms(1) by (simp only: map_jid_set_last_run)
  then have 2: "persist_run ?d1 j t r2 =
      Inr (?d1\<lparr>run_logs := insert_or_replace (run_row j t r2) (run_logs ?d1),
                jobs := map (set_last_run j (end_time r2)) (jobs ?d1)\<rparr>)"
    using assms(2,4) by (simp add: persist_run_def)
  show ?thesis
    unfolding persist_twice_def 1 sum.case 2
    by (simp add: run_logs_for_def run_logs_for_insert)
qed

theorem persist_run_last_write_wins_witness:
  "\<exists>d2. persist_twice (sample_db sample_job (sample_slot ''recurring'' 127 None 600)) 1
           (at 2025 4 30 10 0 0) (sample_result ''success'' 0) (sample_result ''failed'' 1) = Inr d2
     \<and> run_logs_for d2 1 (at 2025 4 30 10 0 0)
         = [run_row 1 (at 2025 4 30 10 0 0) (sample_result ''failed'' 1)]"
  using persist_run_last_write_wins [where j = 1
      and d = "sample_db sample_job (sample_slot ''recurring'' 127 None 600)"
      and t = "at 2025 4 30 10 0 0" and ?r1.0 = "sample_result ''success'' 0"
      and ?r2.0 = "sample_result ''failed'' 1"]
  by (simp add: sample_result_def in_int64_def exit_code_fits_def)

text \<open>
  The claim as the specification states it fails: after a run that succeeded and a run that
  failed are persisted for the same job and minute, the one record kept says
  \<^verbatim>\<open>failed\<close>, the outcome of the second call, and not \<^verbatim>\<open>success\<close>.
\<close>

theorem persist_run_second_outcome_kept:
  "(case persist_twice (sample_db sample_job (sample_slot ''recurring'' 127 None 600)) 1
           (at 2025 4 30 10 0 0) (sample_result ''success'' 0) (sample_result ''failed'' 1) of
      Inl e \<Rightarrow> False
    | Inr d2 \<Rightarrow> map log_status (run_logs_for d2 1 (at 2025 4 30 10 0 0)) = [''failed''])
   \<and> status (sample_result ''success'' 0) = ''success''"
  by (simp add: persist_twice_def persist_run_def run_logs_for_def insert_or_replace_def
      same_key_def run_row_def sample_result_def set_last_run_def in_int64_def
      exit_code_fits_def)

section \<open>Monthly slots in the due-job query\<close>

text \<open>
  Claim C2, evaluated on the code. An active job has one active monthly slot with the stored
  day \<^verbatim>\<open>31\<close> at minute 0. At 00:00 on 30 April 2025, on 28 February 2025 and on
  29 February 2024, each the last day of its month, \<^verbatim>\<open>_get_due_jobs\<close> returns nothing:
  the query keeps a monthly row only when its stored text equals the two digits of today's
  day, so the test on the month's last day in the loop never sees such a row. On 31 March
  2025 the slot is due.
\<close>

theorem monthly_day_31_not_clamped:
  "get_due_jobs (sample_db sample_job (sample_slot ''monthly'' 0 (Some ''31'') 0)) (at 2025 4 30 0 0 0) = []
   \<and> get_due_jobs (sample_db sample_job (sample_slot ''monthly'' 0 (Some ''31'') 0)) (at 2025 2 28 0 0 0) = []
   \<and> get_due_jobs (sample_db sample_job (sample_slot ''monthly'' 0 (Some ''31'') 0)) (at 2024 2 29 0 0 0) = []
   \<and> map schedule_id (get_due_jobs (sample_db sample_job (sample_slot ''monthly'' 0 (Some ''31'') 0))
          (at 2025 3 31 0 0 0)) = [7]"
  by (simp add: eval_sched eval_time py_int_31)

section \<open>Once-per-day suppression\<close>

lemma due_job_row:
  "dj \<in> set (get_due_jobs d now) \<Longrightarrow>
   \<exists>s. (job dj, s) \<in> set (due_rows d (hour now * 60 + minute now) (weekday_mask now)
                             (date_isoformat now) (zero_pad 2 (day now)))
     \<and> schedule_id dj = sid s \<and> scheduled_time dj = truncate_to_minute now
     \<and> row_is_due d now (date_isoformat now) (days_in_month (year now) (month now))
          (truncate_to_minute now) (job dj, s)"
  by (auto simp: get_due_jobs_def Let_def)

lemma same_date_isoformat: "same_date a b \<Longrightarrow> date_isoformat a = date_isoformat b"
  by (simp add: same_date_def date_isoformat_def)

text \<open>
  Claim C8. A job with \<^verbatim>\<open>once_per_day\<close> set and a \<^verbatim>\<open>last_run_at\<close> on the calendar date
  of \<open>now\<close> is in no entry of the due list, whatever its slots are.
\<close>

theorem once_per_day_excluded:
  assumes "once_per_day j" and "last_run_at j = Some lr" and "same_date lr now"
  shows "j \<notin> set (map job (get_due_jobs d now))"
proof
  assume "j \<in> set (map job (get_due_jobs d now))"
  then obtain dj where "dj \<in> set (get_due_jobs d now)" and "job dj = j" by auto
  from due_job_row[OF this(1)] this(2) assms show False
    by (auto simp: row_is_due_def Let_def same_date_isoformat)
qed

text \<open>The witness: the job ran at 09:59:58 today and has a slot that matches 10:00; with
  the flag it is not due, without the flag the same job is.\<close>

theorem once_per_day_excluded_witness:
  "sample_job\<lparr>once_per_day := True, last_run_at := Some (at 2025 4 30 9 59 58)\<rparr>
     \<notin> set (map job (get_due_jobs
           (sample_db (sample_job\<lparr>once_per_day := True, last_run_at := Some (at 2025 4 30 9 59 58)\<rparr>)
              (sample_slot ''recurring'' 127 None 600)) (at 2025 4 30 10 0 0)))
   \<and> map schedule_id (get_due_jobs
           (sample_db (sample_job\<lparr>last_run_at := Some (at 2025 4 30 9 59 58)\<rparr>)
              (sample_slot ''recurring'' 127 None 600)) (at 2025 4 30 10 0 0)) = [7]"
  using once_per_day_excluded [of "sample_job\<lparr>once_per_day := True, last_run_at := Some (at 2025 4 30 9 59 58)\<rparr>"
      "at 2025 4 30 9 59 58" "at 2025 4 30 10 0 0"
      "sample_db (sample_job\<lparr>once_per_day := True, last_run_at := Some (at 2025 4 30 9 59 58)\<rparr>)
              (sample_slot ''recurring'' 127 None 600)"]
  by (simp add: eval_sched eval_time same_date_def)

section \<open>Recurring slots in the due-job query\<close>

lemma weekday_bit:
  "((m::int) AND weekday_mask now) \<noteq> 0 \<longleftrightarrow> bit m (nat (weekday now))"
  by (simp add: weekday_mask_def bit_iff_and_push_bit_not_eq_0)

lemma sid_unique:
  "distinct (map sid xs) \<Longrightarrow> s \<in> set xs \<Longrightarrow> s' \<in> set xs \<Longrightarrow> sid s' = sid s \<Longrightarrow> s' = s"
  by (metis distinct_map inj_onD)

lemma due_job_iff:
  "dj \<in> set (get_due_jobs d now) \<longleftrightarrow>
   (\<exists>s \<in> set (schedules d). job dj \<in> set (jobs d) \<and> job_id s = jid (job dj)
      \<and> sql_where (hour now * 60 + minute now) (weekday_mask now) (date_isoformat now)
            (zero_pad 2 (day now)) (job dj) s
      \<and> row_is_due d now (date_isoformat now) (days_in_month (year now) (month now))
            (truncate_to_minute now) (job dj, s)
      \<and> schedule_id dj = sid s \<and> scheduled_time dj = truncate_to_minute now)"
  by (cases dj) (auto simp: get_due_jobs_def due_rows_def Let_def image_iff)

text \<open>
  Claim C4, as the code has it. Take a job \<open>j\<close> and one of its schedule
  rows \<open>s\<close> of kind \<^verbatim>\<open>recurring\<close> (row ids are the primary key, hence distinct). The due
  list for \<open>now\<close> holds the entry of \<open>j\<close> for \<open>s\<close> if and only if the job and the slot are
  active, the slot's weekday mask has the bit of \<open>now\<close>'s weekday (bit 0 is Monday), the slot's
  minute of the day is \<open>hour * 60 + minute\<close> of \<open>now\<close>, the job is not suppressed by
  \<^verbatim>\<open>once_per_day\<close> with a last run dated today, and no run record exists yet for the job
  and the current minute.
\<close>

theorem recurring_due_iff:
  assumes "j \<in> set (jobs d)" and "s \<in> set (schedules d)" and "job_id s = jid j"
    and "distinct (map sid (schedules d))"
    and "schedule_type s = ''recurring''"
    and "valid_datetime now"
    and "\<forall>lr. last_run_at j = Some lr \<longrightarrow> valid_datetime lr"
  shows "\<lparr>job = j, schedule_id = sid s, scheduled_time = truncate_to_minute now\<rparr>
           \<in> set (get_due_jobs d now)
     \<longleftrightarrow> (active j \<and> slot_active s
          \<and> bit (days_mask s) (nat (weekday now))
          \<and> minute_of_day s = hour now * 60 + minute now
          \<and> \<not> (once_per_day j \<and> (\<exists>lr. last_run_at j = Some lr \<and> same_date lr now))
          \<and> \<not> has_run_log d (jid j) (truncate_to_minute now))"
    (is "?L \<longleftrightarrow> ?R")
proof -
  let ?dj = "\<lparr>job = j, schedule_id = sid s, scheduled_time = truncate_to_minute now\<rparr>"
  have once: "(case last_run_at j of None \<Rightarrow> False
                 | Some last_run \<Rightarrow> date_isoformat last_run = date_isoformat now)
              \<longleftrightarrow> (\<exists>lr. last_run_at j = Some lr \<and> same_date lr now)"
    using assms(6,7) by (auto split: option.splits dest: date_isoformat_inj same_date_isoformat)
  have row: "sql_where (hour now * 60 + minute now) (weekday_mask now) (date_isoformat now)
            (zero_pad 2 (day now)) j s
      \<and> row_is_due d now (date_isoformat now) (days_in_month (year now) (month now))
            (truncate_to_minute now) (j, s) \<longleftrightarrow> ?R"
    using assms(5) once by (auto simp: sql_where_def row_is_due_def Let_def weekday_bit)
  show ?thesis
  proof
    assume ?L
    then obtain s' where s': "s' \<in> set (schedules d)" "sid s' = sid s"
      and r: "sql_where (hour now * 60 + minute now) (weekday_mask now) (date_isoformat now)
            (zero_pad 2 (day now)) j s'"
         "row_is_due d now (date_isoformat now) (days_in_month (year now) (month now))
            (truncate_to_minute now) (j, s')"
      unfolding due_job_iff by auto
    from sid_unique[OF assms(4) assms(2) s'] have "s' = s" .
    with r row show ?R by blast
  next
    assume ?R
    with row assms(1,2,3) show ?L unfolding due_job_iff by auto
  qed
qed

theorem recurring_due_iff_witness:
  "\<lparr>job = sample_job, schedule_id = 7, scheduled_time = at 2025 4 30 10 0 0\<rparr>
     \<in> set (get_due_jobs (sample_db sample_job (sample_slot ''recurring'' 31 None 600))
                (at 2025 4 30 10 0 0))
   \<and> \<lparr>job = sample_job, schedule_id = 7, scheduled_time = at 2025 5 3 10 0 0\<rparr>
     \<notin> set (get_due_jobs (sample_db sample_job (sample_slot ''recurring'' 31 None 600))
                (at 2025 5 3 10 0 0))"
  using recurring_due_iff [of sample_job "sample_db sample_job (sample_slot ''recurring'' 31 None 600)"
      "sample_slot ''recurring'' 31 None 600" "at 2025 4 30 10 0 0"]
    recurring_due_iff [of sample_job "sample_db sample_job (sample_slot ''recurring'' 31 None 600)"
      "sample_slot ''recurring'' 31 None 600" "at 2025 5 3 10 0 0"]
  apply (simp only: sample_job_fields sample_slot_fields sample_db_fields)
  apply (simp add: eval_time has_run_log_def valid_datetime_def)
  done

text \<open>
  The claim as the specification states it fails in the direction from the slot to the due
  list: on Wednesday 30 April 2025 at 10:00 the slot's bit and minute match, the job and the
  slot are active, yet the job, which has \<^verbatim>\<open>once_per_day\<close> set and ran at 09:59:58 that
  day, is not returned.
\<close>

theorem recurring_match_not_due:
  "active (sample_job\<lparr>once_per_day := True, last_run_at := Some (at 2025 4 30 9 59 58)\<rparr>)
   \<and> slot_active (sample_slot ''recurring'' 31 None 600)
   \<and> bit (days_mask (sample_slot ''recurring'' 31 None 600)) (nat (weekday (at 2025 4 30 10 0 0)))
   \<and> minute_of_day (sample_slot ''recurring'' 31 None 600)
        = hour (at 2025 4 30 10 0 0) * 60 + minute (at 2025 4 30 10 0 0)
   \<and> get_due_jobs
        (sample_db (sample_job\<lparr>once_per_day := True, last_run_at := Some (at 2025 4 30 9 59 58)\<rparr>)
           (sample_slot ''recurring'' 31 None 600)) (at 2025 4 30 10 0 0) = []"
  by (simp add: eval_sched eval_time)

section \<open>The retry loop of the HTTP client\<close>








section \<open>What leaves \<^verbatim>\<open>run_job\<close>\<close>

text \<open>
  Claim C5, evaluated on the code. Three jobs for which \<^verbatim>\<open>run_job\<close> raises instead of
  returning an outcome: an HTTP job when the client module's file is missing (loading it
  raises \<^verbatim>\<open>FileNotFoundError\<close>), an HTTP job whose URL has no scheme (the request object
  raises \<^verbatim>\<open>ValueError\<close>), and a program job whose parameters hold an unclosed quotation
  mark (\<^verbatim>\<open>shlex.split\<close> raises \<^verbatim>\<open>ValueError\<close>). \<^verbatim>\<open>_run_api\<close> and \<^verbatim>\<open>_build_command\<close>
  run outside every \<^verbatim>\<open>try\<close>.
\<close>

theorem run_job_raises:
  "run_job ((sample_world fails_twice)\<lparr>load_module := Some FileNotFoundError\<rparr>) api_job
     = ([LoadModule], Inl FileNotFoundError)
   \<and> run_job (sample_world fails_twice) (api_job\<lparr>api_url := ''localhost/ping''\<rparr>)
     = ([LoadModule], Inl ValueError)
   \<and> run_job (sample_world fails_twice)
       (sample_job\<lparr>parameters := ''--name '' @ [CHR 0x22] @ ''nightly''\<rparr>)
     = ([], Inl ValueError)"
  by (simp add: run_job_def run_api_def schedule_api_perform_request_def perform_request_def
      build_command_def startswith_def Let_def)

section \<open>The precedence of the backends\<close>








section \<open>One loop thread\<close>

text \<open>The loop threads that are alive are none, or the one in \<^verbatim>\<open>_thread\<close>.\<close>

definition only_own_thread :: "engine \<Rightarrow> bool" where
  "only_own_thread e = (alive e = [] \<or> (case thread e of None \<Rightarrow> False | Some t \<Rightarrow> alive e = [t]))"

lemma step_only_own_thread: "only_own_thread e \<Longrightarrow> only_own_thread (step c e)"
  by (cases c)
     (auto simp: only_own_thread_def start_def ensure_running_def stop_def loop_exit_def
        is_alive_def Let_def split: option.splits if_splits)

lemma run_calls_only_own_thread:
  "only_own_thread e \<Longrightarrow> only_own_thread (run_calls calls e)"
  unfolding run_calls_def
  by (induction calls arbitrary: e) (simp_all add: step_only_own_thread)

lemma step_running: "is_alive e \<Longrightarrow> is_start_call c \<Longrightarrow> step c e = e"
  by (cases c) (simp_all add: start_def ensure_running_def is_start_call_def)

lemma run_calls_running:
  "is_alive e \<Longrightarrow> list_all is_start_call calls \<Longrightarrow> run_calls calls e = e"
  unfolding run_calls_def
  by (induction calls) (simp_all add: step_running)

text \<open>
  Claim C9. Calls of one engine taken one after the other: after any sequence of
  \<^verbatim>\<open>start\<close>, \<^verbatim>\<open>ensure_running\<close>, \<^verbatim>\<open>stop\<close> and thread ends on a new engine, at most one
  loop thread is alive; and from a state whose loop thread is alive, any sequence of
  \<^verbatim>\<open>start\<close> and \<^verbatim>\<open>ensure_running\<close> calls leaves the engine as it was.
\<close>

theorem one_loop_thread:
  "length (alive (run_calls calls new_engine)) \<le> 1
   \<and> (is_alive e \<and> list_all is_start_call cs \<longrightarrow> run_calls cs e = e)"
proof
  have "only_own_thread new_engine"
    by (simp add: only_own_thread_def new_engine_def)
  then have "only_own_thread (run_calls calls new_engine)"
    by (rule run_calls_only_own_thread)
  then show "length (alive (run_calls calls new_engine)) \<le> 1"
    by (auto simp: only_own_thread_def split: option.splits)
next
  show "is_alive e \<and> list_all is_start_call cs \<longrightarrow> run_calls cs e = e"
    by (simp add: run_calls_running)
qed

theorem one_loop_thread_witness:
  "length (alive (run_calls [Start True, Stop False, Start True, LoopExit 0, EnsureRunning True]
                    new_engine)) \<le> 1
   \<and> run_calls [Start True, EnsureRunning True, Start False] (start True new_engine)
       = start True new_engine
   \<and> alive (run_calls [Start True, Stop False, Start True, LoopExit 0, EnsureRunning True]
               new_engine) = [1]"
  using one_loop_thread [where calls = "[Start True, Stop False, Start True, LoopExit 0, EnsureRunning True]"
      and e = "start True new_engine" and cs = "[Start True, EnsureRunning True, Start False]"]
  by (simp add: run_calls_def start_def ensure_running_def stop_def loop_exit_def is_alive_def
      new_engine_def is_start_call_def Let_def)

section \<open>The next run, asked again at the instant it returned\<close>

lemma minute_to_datetime_fields:
  assumes "minute_to_datetime ref m = Inr r"
  shows "same_date r ref" and "second r = 0" and "microsecond r = 0"
    and "0 \<le> minute r" and "minute r < 60" and "hour r * 60 + minute r = m"
  using assms by (auto simp: minute_to_datetime_def Let_def same_date_def split: if_splits)

lemma minute_to_datetime_again:
  "minute_to_datetime ref m = Inr r \<Longrightarrow> minute_to_datetime r m = Inr r"
  by (auto simp: minute_to_datetime_def Let_def split: if_splits)

lemma weekday_mask_same_date: "same_date a b \<Longrightarrow> weekday_mask a = weekday_mask b"
  by (simp add: weekday_mask_def weekday_def toordinal_def same_date_def)

lemma same_date_sym: "same_date a b \<Longrightarrow> same_date b a"
  by (simp add: same_date_def)

lemma same_date_trans: "same_date a b \<Longrightarrow> same_date b c \<Longrightarrow> same_date a c"
  by (simp add: same_date_def)

lemma recurring_slots_found:
  assumes "recurring_slots now k target dm slots = Some (Inr r)"
  shows "same_date r target \<and> second r = 0 \<and> microsecond r = 0 \<and> 0 \<le> minute r \<and> minute r < 60
         \<and> (k = 0 \<longrightarrow> hour now * 60 + minute now \<le> hour r * 60 + minute r)"
  using assms
proof (induction slots)
  case Nil
  then show ?case by simp
next
  case (Cons s rest)
  show ?case
  proof (cases "(days_mask s AND dm) = 0 \<or> (k = 0 \<and> minute_of_day s < hour now * 60 + minute now)")
    case True
    then have "recurring_slots now k target dm (s # rest) = recurring_slots now k target dm rest"
      by auto
    with Cons show ?thesis by simp
  next
    case False
    then have "recurring_slots now k target dm (s # rest)
        = Some (minute_to_datetime target (minute_of_day s))" by auto
    with Cons.prems have m: "minute_to_datetime target (minute_of_day s) = Inr r" by simp
    from minute_to_datetime_fields[OF m] False show ?thesis by auto
  qed
qed

lemma recurring_slots_again:
  assumes "recurring_slots now k target dm slots = Some (Inr r)"
  shows "recurring_slots r 0 r dm slots = Some (Inr r)"
proof -
  have bound: "k = 0 \<longrightarrow> hour now * 60 + minute now \<le> hour r * 60 + minute r"
    using recurring_slots_found[OF assms] by simp
  from assms show ?thesis
  proof (induction slots)
    case Nil
    then show ?case by simp
  next
    case (Cons s rest)
    show ?case
    proof (cases "(days_mask s AND dm) = 0 \<or> (k = 0 \<and> minute_of_day s < hour now * 60 + minute now)")
      case True
      then have "recurring_slots now k target dm (s # rest) = recurring_slots now k target dm rest"
        by auto
      with Cons have "recurring_slots r 0 r dm rest = Some (Inr r)" by simp
      moreover from True bound
      have "(days_mask s AND dm) = 0 \<or> minute_of_day s < hour r * 60 + minute r" by auto
      ultimately show ?thesis by auto
    next
      case False
      then have "recurring_slots now k target dm (s # rest)
          = Some (minute_to_datetime target (minute_of_day s))" by auto
      with Cons.prems have m: "minute_to_datetime target (minute_of_day s) = Inr r" by simp
      from minute_to_datetime_fields(6)[OF m] minute_to_datetime_again[OF m] False
      show ?thesis by auto
    qed
  qed
qed

lemma recurring_days_found:
  "recurring_days now slots offs = Inr (Some r) \<Longrightarrow>
   \<exists>k target. add_days now k = Inr target
      \<and> recurring_slots now k target (weekday_mask target) slots = Some (Inr r)"
  by (induction offs) (auto split: sum.splits option.splits)

lemma upt_8: "[0..<8] = 0 # [1..<8]"
  by (simp add: upt_rec)

lemma next_recurring_run_again:
  assumes "next_recurring_run now slots = Inr (Some r)"
  shows "next_recurring_run r slots = Inr (Some r)"
proof -
  from assms obtain k target where t: "add_days now k = Inr target"
    and f: "recurring_slots now k target (weekday_mask target) slots = Some (Inr r)"
    unfolding next_recurring_run_def by (blast dest: recurring_days_found)
  have "same_date r target" using recurring_slots_found[OF f] by simp
  then have "weekday_mask r = weekday_mask target" by (rule weekday_mask_same_date)
  with recurring_slots_again[OF f]
  have "recurring_slots r 0 r (weekday_mask r) slots = Some (Inr r)" by simp
  then show ?thesis
    unfolding next_recurring_run_def upt_8 by simp
qed

lemma date_less_trans: "date_less a b \<Longrightarrow> date_less b c \<Longrightarrow> date_less a c"
  by (auto simp: date_less_def)

lemma date_less_next_day: "date_less d (next_day d)"
  by (simp add: date_less_def next_day_def)

lemma add_days_later:
  "add_days now k = Inr target \<Longrightarrow> (k = 0 \<and> target = now) \<or> (0 < k \<and> date_less now target)"
proof (induction k arbitrary: target)
  case 0
  then show ?case by simp
next
  case (Suc k)
  then obtain d where d: "add_days now k = Inr d" and t: "target = next_day d"
    by (auto split: sum.splits if_splits)
  from Suc.IH[OF d] have "d = now \<or> date_less now d" by auto
  then show ?case using date_less_next_day[of d] t by (auto intro: date_less_trans)
qed

lemma minute_order:
  assumes "hour a * 60 + minute a \<le> hour r * 60 + minute r"
    and "0 \<le> minute a" "minute a < 60" "0 \<le> minute r" "minute r < 60"
    and "second r = 0" "microsecond r = 0" "same_date r a"
  shows "datetime_le (truncate_to_minute a) r"
proof -
  have "hour a < hour r \<or> (hour a = hour r \<and> minute a \<le> minute r)"
    using assms(1-5) by arith
  then show ?thesis
    using assms(6-8)
    by (auto simp: datetime_le_def datetime_less_def time_less_def same_time_def same_date_def
        truncate_to_minute_def)
qed

lemma later_date_order:
  "date_less a t \<Longrightarrow> same_date r t \<Longrightarrow> datetime_le (truncate_to_minute a) r"
  by (auto simp: datetime_le_def datetime_less_def date_less_def same_date_def
      truncate_to_minute_def)

lemma next_recurring_run_bound:
  assumes "next_recurring_run now slots = Inr (Some r)" and "valid_datetime now"
  shows "datetime_le (truncate_to_minute now) r"
proof -
  from assms(1) obtain k target where t: "add_days now k = Inr target"
    and f: "recurring_slots now k target (weekday_mask target) slots = Some (Inr r)"
    unfolding next_recurring_run_def by (blast dest: recurring_days_found)
  note r = recurring_slots_found[OF f]
  from add_days_later[OF t] show ?thesis
  proof
    assume "k = 0 \<and> target = now"
    with r assms(2) show ?thesis
      by (intro minute_order) (auto simp: valid_datetime_def)
  next
    assume "0 < k \<and> date_less now target"
    with r show ?thesis by (auto intro: later_date_order)
  qed
qed

lemma dated_slots_found:
  assumes "dated_slots now target ref slots = Some (Inr r)"
  shows "same_date r ref \<and> second r = 0 \<and> microsecond r = 0 \<and> 0 \<le> minute r \<and> minute r < 60
         \<and> (same_date target now \<longrightarrow> hour now * 60 + minute now \<le> hour r * 60 + minute r)"
  using assms
proof (induction slots)
  case Nil
  then show ?case by simp
next
  case (Cons s rest)
  show ?case
  proof (cases "same_date target now \<and> minute_of_day s < hour now * 60 + minute now")
    case True
    then have "dated_slots now target ref (s # rest) = dated_slots now target ref rest"
      by simp
    with Cons show ?thesis by simp
  next
    case False
    then have "dated_slots now target ref (s # rest)
        = Some (minute_to_datetime ref (minute_of_day s))" by auto
    with Cons.prems have m: "minute_to_datetime ref (minute_of_day s) = Inr r" by simp
    from minute_to_datetime_fields[OF m] False show ?thesis by auto
  qed
qed

lemma dated_slots_again:
  assumes "dated_slots now target ref slots = Some (Inr r)"
    and "same_date ref target"
    and "\<And>m. minute_to_datetime ref' m = minute_to_datetime ref m"
  shows "dated_slots r target ref' slots = Some (Inr r)"
proof -
  note found = dated_slots_found[OF assms(1)]
  have rt: "same_date target r"
    using found assms(2) by (auto simp: same_date_def)
  from assms(1) show ?thesis
  proof (induction slots)
    case Nil
    then show ?case by simp
  next
    case (Cons s rest)
    show ?case
    proof (cases "same_date target now \<and> minute_of_day s < hour now * 60 + minute now")
      case True
      then have "dated_slots now target ref (s # rest) = dated_slots now target ref rest"
        by simp
      with Cons have "dated_slots r target ref' rest = Some (Inr r)" by simp
      moreover from True found have "minute_of_day s < hour r * 60 + minute r" by auto
      ultimately show ?thesis using rt by simp
    next
      case False
      then have "dated_slots now target ref (s # rest)
          = Some (minute_to_datetime ref (minute_of_day s))" by auto
      with Cons.prems have m: "minute_to_datetime ref (minute_of_day s) = Inr r" by simp
      from minute_to_datetime_fields(6)[OF m] m assms(3) show ?thesis by simp
    qed
  qed
qed

lemma dated_slots_bound:
  assumes "dated_slots now target ref slots = Some (Inr r)"
    and "same_date ref target" and "\<not> date_less target now" and "valid_datetime now"
  shows "datetime_le (truncate_to_minute now) r"
proof -
  note found = dated_slots_found[OF assms(1)]
  have rt: "same_date r target" using found assms(2) by (auto simp: same_date_def)
  from assms(3) have "same_date target now \<or> date_less now target"
    by (auto simp: date_less_def same_date_def)
  then show ?thesis
  proof
    assume "same_date target now"
    with found rt assms(4) show ?thesis
      by (intro minute_order) (auto simp: valid_datetime_def same_date_def)
  next
    assume "date_less now target"
    then show ?thesis using rt by (rule later_date_order)
  qed
qed

lemma dated_slots_shape:
  "dated_slots now target ref slots = Some (Inr r) \<Longrightarrow>
   \<exists>h mi. r = ref\<lparr>hour := h, minute := mi, second := 0, microsecond := 0\<rparr>"
proof (induction slots)
  case Nil
  then show ?case by simp
next
  case (Cons s rest)
  then show ?case
    by (auto simp: minute_to_datetime_def Let_def split: if_splits)
qed

lemma next_date_run_found:
  assumes "next_date_run f now slots = Inr (Some r)"
  shows "\<exists>first others ds target. slots = first # others \<and> date first = Some ds \<and> ds \<noteq> []
           \<and> f ds = Some target \<and> \<not> date_less target now
           \<and> dated_slots now target (combine target now) slots = Some (Inr r)"
  using assms
  by (auto simp: next_date_run_def split: list.splits option.splits if_splits sum.splits)

lemma same_date_combine: "same_date (combine target t) target"
  by (simp add: combine_def same_date_def)

lemma not_date_less_same: "same_date a b \<Longrightarrow> \<not> date_less a b"
  by (auto simp: same_date_def date_less_def)

lemma next_date_run_again:
  assumes "next_date_run f now slots = Inr (Some r)"
  shows "next_date_run f r slots = Inr (Some r)"
proof -
  from next_date_run_found[OF assms] obtain first others ds target where
    s: "slots = first # others" "date first = Some ds" "ds \<noteq> []" "f ds = Some target"
    and d: "dated_slots now target (combine target now) slots = Some (Inr r)"
    by blast
  from dated_slots_shape[OF d] obtain h mi where
    r: "r = (combine target now)\<lparr>hour := h, minute := mi, second := 0, microsecond := 0\<rparr>"
    by blast
  have same: "\<And>m. minute_to_datetime (combine target r) m
               = minute_to_datetime (combine target now) m"
    by (simp add: r minute_to_datetime_def combine_def Let_def)
  have "dated_slots r target (combine target r) slots = Some (Inr r)"
    using d same_date_combine same by (rule dated_slots_again)
  moreover have "same_date target r"
    by (simp add: r combine_def same_date_def)
  then have "\<not> date_less target r" by (rule not_date_less_same)
  ultimately show ?thesis
    using s by (simp add: next_date_run_def)
qed

lemma next_date_run_bound:
  assumes "next_date_run f now slots = Inr (Some r)" and "valid_datetime now"
  shows "datetime_le (truncate_to_minute now) r"
proof -
  from next_date_run_found[OF assms(1)] obtain target where
    "\<not> date_less target now"
    "dated_slots now target (combine target now) slots = Some (Inr r)"
    by blast
  then show ?thesis
    using same_date_combine assms(2) by (intro dated_slots_bound) auto
qed

lemma make_date_fields:
  "make_date y m d = Inr t \<Longrightarrow> year t = y \<and> month t = m \<and> day t = d \<and> 1 \<le> m \<and> m \<le> 12"
  by (auto simp: make_date_def split: if_splits)

lemma monthly_months_found:
  "monthly_months now sd slots offs = Inr (Some r) \<Longrightarrow>
   \<exists>target. make_date (year target) (month target)
               (min sd (days_in_month (year target) (month target))) = Inr target
     \<and> \<not> date_less target now
     \<and> dated_slots now target target slots = Some (Inr r)"
proof (induction offs)
  case Nil
  then show ?case by simp
next
  case (Cons off rest)
  let ?m0 = "month now + int off"
  let ?y = "year now + (?m0 - 1) div 12"
  let ?m = "(?m0 - 1) mod 12 + 1"
  let ?d = "min sd (days_in_month ?y ?m)"
  show ?case
  proof (cases "make_date ?y ?m ?d")
    case (Inl e)
    with Cons.prems show ?thesis by (simp add: Let_def)
  next
    case (Inr target)
    note f = make_date_fields[OF Inr]
    show ?thesis
    proof (cases "date_less target now")
      case True
      with Inr Cons show ?thesis by (simp add: Let_def)
    next
      case False
      show ?thesis
      proof (cases "dated_slots now target target slots")
        case None
        with Inr False Cons show ?thesis by (simp add: Let_def)
      next
        case (Some res)
        with Inr False Cons.prems have "res = Inr r"
          by (cases res) (simp_all add: Let_def)
        moreover have "make_date (year target) (month target)
            (min sd (days_in_month (year target) (month target))) = Inr target"
          using Inr f by simp
        ultimately show ?thesis using Some False by blast
      qed
    qed
  qed
qed

lemma upt_13: "[0..<13] = 0 # [1..<13]"
  by (simp add: upt_rec)

lemma monthly_months_again:
  assumes "monthly_months now sd slots offs = Inr (Some r)"
  shows "monthly_months r sd slots (0 # rest) = Inr (Some r)"
proof -
  from monthly_months_found[OF assms] obtain target where
    m: "make_date (year target) (month target)
          (min sd (days_in_month (year target) (month target))) = Inr target"
    and d: "dated_slots now target target slots = Some (Inr r)"
    by blast
  note f = make_date_fields[OF m]
  have rt: "same_date r target" using dated_slots_found[OF d] by simp
  then have ym: "year r = year target" "month r = month target"
    by (simp_all add: same_date_def)
  have "same_date target target" by (simp add: same_date_def)
  then have again: "dated_slots r target target slots = Some (Inr r)"
    using d by (intro dated_slots_again[where ref = target and now = now]) auto
  have nl: "\<not> date_less target r"
    using rt by (auto simp: same_date_def date_less_def)
  have "(month target - 1) div 12 = 0" "(month target - 1) mod 12 + 1 = month target"
    using f by auto
  then show ?thesis
    using m again nl by (simp add: Let_def ym)
qed

lemma next_monthly_run_again:
  assumes "next_monthly_run now slots = Inr (Some r)"
  shows "next_monthly_run r slots = Inr (Some r)"
proof -
  from assms obtain first others sd where s: "slots = first # others"
    and p: "py_int (case date first of None \<Rightarrow> [] | Some t \<Rightarrow> t) = Some sd"
    and m: "monthly_months now sd slots [0..<13] = Inr (Some r)"
    by (auto simp: next_monthly_run_def split: list.splits option.splits)
  from monthly_months_again[OF m, of "[1..<13]"]
  have "monthly_months r sd slots [0..<13] = Inr (Some r)"
    by (simp only: upt_13)
  then show ?thesis
    unfolding next_monthly_run_def s list.case p option.case
    by (simp only: s)
qed

lemma next_monthly_run_bound:
  assumes "next_monthly_run now slots = Inr (Some r)" and "valid_datetime now"
  shows "datetime_le (truncate_to_minute now) r"
proof -
  from assms(1) obtain sd where "monthly_months now sd slots [0..<13] = Inr (Some r)"
    by (auto simp: next_monthly_run_def split: list.splits option.splits)
  from monthly_months_found[OF this] obtain target where
    "\<not> date_less target now" "dated_slots now target target slots = Some (Inr r)"
    by blast
  then show ?thesis
    using assms(2) by (intro dated_slots_bound[where ref = target]) (auto simp: same_date_def)
qed

text \<open>
  Claim C3, as the code has it. When \<^verbatim>\<open>next_run_for_job\<close> returns an instant \<open>r\<close> for the
  reference time \<open>now\<close>, then \<open>r\<close> is not before \<open>now\<close> cut to its minute (seconds and
  microseconds dropped), and asking again with \<open>r\<close> as the reference returns \<open>r\<close> itself: a
  slot is passed over on the reference's day only when its minute of the day is less than
  the reference's, so a slot at the reference's own minute is still returned. This holds for
  the three kinds of schedule.
\<close>

theorem next_run_minute_floor:
  assumes "next_run_for_job f d now j = Inr (Some r)" and "valid_datetime now"
  shows "datetime_le (truncate_to_minute now) r \<and> next_run_for_job f d r j = Inr (Some r)"
proof (cases "active_slots d j")
  case Nil
  with assms(1) show ?thesis by (simp add: next_run_for_job_def)
next
  case (Cons first others)
  show ?thesis
  proof (cases "schedule_type first = ''date''")
    case True
    with Cons assms(1) have "next_date_run f now (first # others) = Inr (Some r)"
      by (simp add: next_run_for_job_def)
    from next_date_run_bound[OF this assms(2)] next_date_run_again[OF this] True Cons
    show ?thesis by (simp add: next_run_for_job_def)
  next
    case False
    show ?thesis
    proof (cases "schedule_type first = ''monthly''")
      case True
      with False Cons assms(1) have "next_monthly_run now (first # others) = Inr (Some r)"
        by (simp add: next_run_for_job_def)
      from next_monthly_run_bound[OF this assms(2)] next_monthly_run_again[OF this] True False Cons
      show ?thesis by (simp add: next_run_for_job_def)
    next
      case nm: False
      with False Cons assms(1) have "next_recurring_run now (first # others) = Inr (Some r)"
        by (simp add: next_run_for_job_def)
      from next_recurring_run_bound[OF this assms(2)] next_recurring_run_again[OF this] nm False Cons
      show ?thesis by (simp add: next_run_for_job_def)
    qed
  qed
qed

lemma sample_next_run:
  "next_run_for_job (\<lambda>s. None) (sample_db sample_job (sample_slot ''recurring'' 127 None 600))
     (at 2025 4 30 10 0 30) 1 = Inr (Some (at 2025 4 30 10 0 0))"
  by (simp add: next_run_for_job_def active_slots_def next_recurring_run_def upt_8
      minute_to_datetime_def eval_time Let_def)

theorem next_run_minute_floor_witness:
  "datetime_le (truncate_to_minute (at 2025 4 30 10 0 30)) (at 2025 4 30 10 0 0)
   \<and> next_run_for_job (\<lambda>s. None) (sample_db sample_job (sample_slot ''recurring'' 127 None 600))
        (at 2025 4 30 10 0 0) 1 = Inr (Some (at 2025 4 30 10 0 0))"
  using next_run_minute_floor [where f = "\<lambda>s. None"
      and d = "sample_db sample_job (sample_slot ''recurring'' 127 None 600)"
      and now = "at 2025 4 30 10 0 30" and j = 1 and r = "at 2025 4 30 10 0 0"]
    sample_next_run
  by (simp add: valid_datetime_def days_in_month_def at_def)

text \<open>
  The claim as the specification states it fails: a job runs every day at 10:00, and at
  10:00:30 on 30 April 2025 its next run is 10:00:00 of that day, which is before the
  reference; asked again at that instant, the answer is the same instant.
\<close>

theorem next_run_before_reference:
  "next_run_for_job (\<lambda>s. None) (sample_db sample_job (sample_slot ''recurring'' 127 None 600))
     (at 2025 4 30 10 0 30) 1 = Inr (Some (at 2025 4 30 10 0 0))
   \<and> datetime_less (at 2025 4 30 10 0 0) (at 2025 4 30 10 0 30)
   \<and> next_run_for_job (\<lambda>s. None) (sample_db sample_job (sample_slot ''recurring'' 127 None 600))
        (at 2025 4 30 10 0 0) 1 = Inr (Some (at 2025 4 30 10 0 0))"
  by (simp add: next_run_for_job_def active_slots_def next_recurring_run_def upt_8
      minute_to_datetime_def eval_time Let_def datetime_less_def date_less_def same_date_def
      time_less_def)

end
